theory Spec2Isabelle
  imports Main "HOL-Library.Sublist"
begin

section \<open>JavaScript values and strings\<close>

text \<open>
  A JavaScript string is modelled as a \<^typ>\<open>string\<close> whose characters are the code units
  \<open>0x00 .. 0xFF\<close>. The values a dynamically typed field or argument can hold are the
  constructors of \<open>jsval\<close>; an array is \<open>JArr\<close>, whose argument is the list itself in the
  value view of a container (\<open>'a = string list\<close>) and a reference into the store in the
  object view (\<open>'a = addr\<close>). A number \<open>JNum n\<close> is the integer \<open>n\<close>; it stands for the
  JavaScript number of that value when \<open>n\<close> is a safe integer, one a double holds exactly.
\<close>

datatype 'a jsval = JUndefined | JNull | JBool bool | JNum int | JStr string | JArr 'a

text \<open>\<open>if (v)\<close>: undefined, null, false, 0 and the empty string are falsy.\<close>

fun truthy :: "'a jsval \<Rightarrow> bool" where
  "truthy JUndefined = False"
| "truthy JNull = False"
| "truthy (JBool b) = b"
| "truthy (JNum n) = (n \<noteq> 0)"
| "truthy (JStr s) = (s \<noteq> [])"
| "truthy (JArr a) = True"

fun typeof :: "'a jsval \<Rightarrow> string" where
  "typeof JUndefined = ''undefined''"
| "typeof JNull = ''object''"
| "typeof (JBool b) = ''boolean''"
| "typeof (JNum n) = ''number''"
| "typeof (JStr s) = ''string''"
| "typeof (JArr a) = ''object''"

text \<open>The characters of a value that is known to be a string.\<close>

fun str_of :: "'a jsval \<Rightarrow> string" where
  "str_of (JStr s) = s"
| "str_of _ = []"

abbreviation nl :: string where
  "nl \<equiv> [CHR 0x0A]"

text \<open>
  \<open>String.prototype.trim\<close> removes white space and line terminators from both ends; among
  the code units below \<open>0x100\<close> these are TAB, LF, VT, FF, CR, SPACE and NBSP.
\<close>

definition isWhiteSpace :: "char \<Rightarrow> bool" where
  "isWhiteSpace c = (c = CHR 0x09 \<or> c = CHR 0x0A \<or> c = CHR 0x0B \<or> c = CHR 0x0C \<or> c = CHR 0x0D
     \<or> c = CHR 0x20 \<or> c = CHR 0xA0)"

definition trim :: "string \<Rightarrow> string" where
  "trim s = rev (dropWhile isWhiteSpace (rev (dropWhile isWhiteSpace s)))"

text \<open>\<open>s.split(c)\<close> for a separator of one character: never the empty list.\<close>

fun split :: "char \<Rightarrow> string \<Rightarrow> string list" where
  "split c [] = [[]]"
| "split c (x # xs) =
     (if x = c then [] # split c xs
      else (case split c xs of [] \<Rightarrow> [[x]] | y # ys \<Rightarrow> (x # y) # ys))"

text \<open>\<open>xs.join(sep)\<close>.\<close>

fun join :: "string \<Rightarrow> string list \<Rightarrow> string" where
  "join sep [] = []"
| "join sep [x] = x"
| "join sep (x # y # ys) = x @ sep @ join sep (y # ys)"

text \<open>\<open>s.replace(/c/g, r)\<close> for a pattern of one literal character.\<close>

definition replaceAll :: "char \<Rightarrow> string \<Rightarrow> string \<Rightarrow> string" where
  "replaceAll c r s = concat (map (\<lambda>x. if x = c then r else [x]) s)"

definition isDigit :: "char \<Rightarrow> bool" where
  "isDigit c = (48 \<le> (of_char c :: nat) \<and> (of_char c :: nat) \<le> 57)"

definition isAlpha :: "char \<Rightarrow> bool" where
  "isAlpha c = ((65 \<le> (of_char c :: nat) \<and> (of_char c :: nat) \<le> 90)
     \<or> (97 \<le> (of_char c :: nat) \<and> (of_char c :: nat) \<le> 122))"

text \<open>The value of a string of decimal digits, most significant digit first.\<close>

definition decimal :: "string \<Rightarrow> nat" where
  "decimal ds = foldl (\<lambda>n c. 10 * n + (of_char c - 48)) 0 ds"

text \<open>
  \<open>parseInt(s, 10)\<close>: leading white space is skipped, a sign is read, and the longest run of
  digits that follows is the number; with no digit there the result is NaN, here \<open>None\<close>.
  (The comparisons the callers make with 1 and 65535 are the same on the rounded
  double and on the exact integer.)
\<close>

definition parseInt :: "string \<Rightarrow> int option" where
  "parseInt s =
     (let t = dropWhile isWhiteSpace s;
          neg = (t \<noteq> [] \<and> hd t = CHR ''-'');
          u = (if t \<noteq> [] \<and> (hd t = CHR ''-'' \<or> hd t = CHR ''+'') then tl t else t);
          ds = takeWhile isDigit u
      in if ds = [] then None
         else Some (if neg then - int (decimal ds) else int (decimal ds)))"

text \<open>Decimal digits of a number, for \<open>`${n}`\<close>.\<close>

fun showNat :: "nat \<Rightarrow> string" where
  "showNat n = (if n < 10 then [char_of (48 + n)] else showNat (n div 10) @ [char_of (48 + n mod 10)])"

definition showInt :: "int \<Rightarrow> string" where
  "showInt i = (if i < 0 then CHR ''-'' # showNat (nat (- i)) else showNat (nat i))"

text \<open>\<open>`${v}`\<close> in the value view, where an array holds its strings.\<close>

fun toStr :: "string list jsval \<Rightarrow> string" where
  "toStr JUndefined = ''undefined''"
| "toStr JNull = ''null''"
| "toStr (JBool b) = (if b then ''true'' else ''false'')"
| "toStr (JNum n) = showInt n"
| "toStr (JStr s) = s"
| "toStr (JArr xs) = join '','' xs"

declare showNat.simps [simp del]

text \<open>
  \<open>Number.isSafeInteger\<close> on the numbers of the model. A template literal prints a safe
  integer as its decimal numeral, which is what \<open>toStr\<close> gives; from \<open>1e21\<close> on JavaScript
  prints an exponent, so the text of a number is stated for safe numbers only.
\<close>

fun safeNumber :: "'a jsval \<Rightarrow> bool" where
  "safeNumber (JNum n) = (\<bar>n\<bar> < 2 ^ 53)"
| "safeNumber _ = True"

section \<open>The container model (js/container.js)\<close>

text \<open>
  Class \<open>Container\<close>. A field the constructor sets to \<open>[]\<close> is a list field of type \<open>'a\<close>
  (the list of strings itself in the value view, \<open>'a = string list\<close>); a field it sets to
  \<open>null\<close>, \<open>false\<close> or \<open>true\<close> is dynamically typed, since the generator tests it for
  truthiness whatever it holds; \<open>image\<close> and \<open>notify\<close> are strings. The fields \<open>image\<close>, \<open>group\<close> and \<open>mask\<close> carry the suffix \<open>_field\<close>.
\<close>

record 'a Container =
  image_field :: string
  containerName :: "'a jsval"
  exec :: "'a jsval"
  addCapability :: 'a
  dropCapability :: 'a
  addDevice :: 'a
  mount :: 'a
  volume :: 'a
  network :: 'a
  networkAlias :: 'a
  publishPort :: 'a
  exposeHostPort :: 'a
  ip :: "'a jsval"
  ip6 :: "'a jsval"
  dns :: 'a
  dnsOption :: 'a
  dnsSearch :: 'a
  environment :: 'a
  environmentFile :: 'a
  environmentHost :: "'a jsval"
  noNewPrivileges :: "'a jsval"
  securityLabelDisable :: "'a jsval"
  securityLabelFileType :: "'a jsval"
  securityLabelLevel :: "'a jsval"
  securityLabelNested :: "'a jsval"
  securityLabelType :: "'a jsval"
  seccompProfile :: "'a jsval"
  mask_field :: 'a
  unmask :: "'a jsval"
  user :: "'a jsval"
  group_field :: "'a jsval"
  groupAdd :: 'a
  userNS :: "'a jsval"
  uidMap :: 'a
  gidMap :: 'a
  subUidMap :: "'a jsval"
  subGidMap :: "'a jsval"
  readOnly :: "'a jsval"
  readOnlyTmpfs :: "'a jsval"
  runInit :: "'a jsval"
  workingDir :: "'a jsval"
  hostName :: "'a jsval"
  timezone :: "'a jsval"
  shmSize :: "'a jsval"
  tmpfs :: 'a
  healthCmd :: "'a jsval"
  healthInterval :: "'a jsval"
  healthOnFailure :: "'a jsval"
  healthRetries :: "'a jsval"
  healthStartPeriod :: "'a jsval"
  healthStartupCmd :: "'a jsval"
  healthStartupInterval :: "'a jsval"
  healthStartupRetries :: "'a jsval"
  healthStartupSuccess :: "'a jsval"
  healthStartupTimeout :: "'a jsval"
  healthTimeout :: "'a jsval"
  notify :: string
  stopSignal :: "'a jsval"
  stopTimeout :: "'a jsval"
  pod :: "'a jsval"
  logDriver :: "'a jsval"
  logOpt :: 'a
  label :: 'a
  annotation :: 'a
  pidsLimit :: "'a jsval"
  ulimit :: 'a
  sysctl :: 'a
  autoUpdate :: "'a jsval"
  pull :: "'a jsval"
  secret :: 'a
  rootfs :: "'a jsval"
  entrypoint :: "'a jsval"
  podmanArgs :: "'a jsval"

type_synonym container = "string list Container"

text \<open>\<open>new Container()\<close> in the value view.\<close>

definition newContainer :: container where
  "newContainer = \<lparr>
     image_field = [], containerName = JNull, exec = JNull,
     addCapability = [], dropCapability = [],
     addDevice = [], mount = [], volume = [],
     network = [], networkAlias = [], publishPort = [], exposeHostPort = [],
     ip = JNull, ip6 = JNull,
     dns = [], dnsOption = [], dnsSearch = [],
     environment = [], environmentFile = [], environmentHost = JBool False,
     noNewPrivileges = JBool False, securityLabelDisable = JBool False,
     securityLabelFileType = JNull, securityLabelLevel = JNull,
     securityLabelNested = JBool False, securityLabelType = JNull, seccompProfile = JNull,
     mask_field = [], unmask = JNull,
     user = JNull, group_field = JNull, groupAdd = [], userNS = JNull,
     uidMap = [], gidMap = [], subUidMap = JNull, subGidMap = JNull,
     readOnly = JBool False, readOnlyTmpfs = JBool True, runInit = JBool False,
     workingDir = JNull, hostName = JNull, timezone = JNull, shmSize = JNull, tmpfs = [],
     healthCmd = JNull, healthInterval = JNull, healthOnFailure = JNull, healthRetries = JNull,
     healthStartPeriod = JNull, healthStartupCmd = JNull, healthStartupInterval = JNull,
     healthStartupRetries = JNull, healthStartupSuccess = JNull, healthStartupTimeout = JNull,
     healthTimeout = JNull,
     notify = ''conmon'', stopSignal = JNull, stopTimeout = JNull,
     pod = JNull,
     logDriver = JNull, logOpt = [],
     label = [], annotation = [],
     pidsLimit = JNull, ulimit = [], sysctl = [],
     autoUpdate = JNull, pull = JNull,
     secret = [], rootfs = JNull, entrypoint = JNull, podmanArgs = JNull \<rparr>"

subsection \<open>The validating mutators\<close>

text \<open>
  A thrown \<open>Error\<close> is a value of \<open>error\<close>, one constructor per \<open>throw\<close> statement. A mutator
  takes the container and its argument and returns the error it threw, if any, together
  with the container as the call leaves it; \<open>return this\<close> is the pair \<open>(None, this')\<close>.
\<close>

datatype error =
    ImageNotNonEmptyString
  | NameNotNonEmptyString
  | NameBadFormat
  | ExecNotString
  | PortNotNonEmptyString
  | PortBadFormat
  | PortOutOfRange "int option"
  | EnvNotNonEmptyString
  | EnvBadFormat
  | VolumeNotNonEmptyString
  | VolumeBadFormat
  | LabelNotNonEmptyString
  | LabelBadFormat
  | InvalidVolumeFormat string

type_synonym outcome = "error option \<times> container"

text \<open>The guard \<open>!v || typeof v !== 'string' || v.trim() === ''\<close> that opens six mutators.\<close>

definition notNonEmptyString :: "'a jsval \<Rightarrow> bool" where
  "notNonEmptyString v = (\<not> truthy v \<or> typeof v \<noteq> ''string'' \<or> trim (str_of v) = [])"

definition setImage :: "container \<Rightarrow> string list jsval \<Rightarrow> outcome" where
  "setImage this img =
     (if notNonEmptyString img then (Some ImageNotNonEmptyString, this)
      else (None, this\<lparr>image_field := trim (str_of img)\<rparr>))"

text \<open>\<open>/^[a-zA-Z0-9][a-zA-Z0-9_.-]*$/.test(s)\<close>.\<close>

definition isAlnum :: "char \<Rightarrow> bool" where
  "isAlnum c = (isAlpha c \<or> isDigit c)"

definition isNameChar :: "char \<Rightarrow> bool" where
  "isNameChar c = (isAlnum c \<or> c = CHR ''_'' \<or> c = CHR ''.'' \<or> c = CHR ''-'')"

fun namePattern :: "string \<Rightarrow> bool" where
  "namePattern [] = False"
| "namePattern (c # cs) = (isAlnum c \<and> list_all isNameChar cs)"

definition setContainerName :: "container \<Rightarrow> string list jsval \<Rightarrow> outcome" where
  "setContainerName this name =
     (if notNonEmptyString name then (Some NameNotNonEmptyString, this)
      else let trimmedName = trim (str_of name)
           in if \<not> namePattern trimmedName then (Some NameBadFormat, this)
              else (None, this\<lparr>containerName := JStr trimmedName\<rparr>))"

definition setExec :: "container \<Rightarrow> string list jsval \<Rightarrow> outcome" where
  "setExec this command =
     (if truthy command \<and> typeof command \<noteq> ''string'' then (Some ExecNotString, this)
      else (None, this\<lparr>exec := command\<rparr>))"

text \<open>
  \<open>/^(\d+:)?\d+(\/(?:tcp|udp|sctp))?$/.test(s)\<close>. No digit and no colon is a slash, so the
  optional protocol group, when present, starts at the first slash of \<open>s\<close>, and the
  optional host group, when present, ends at the first colon.
\<close>

definition digits :: "string \<Rightarrow> bool" where
  "digits s = (s \<noteq> [] \<and> list_all isDigit s)"

definition hostContainerPattern :: "string \<Rightarrow> bool" where
  "hostContainerPattern s =
     (let h = takeWhile (\<lambda>c. c \<noteq> CHR '':'') s; r = dropWhile (\<lambda>c. c \<noteq> CHR '':'') s
      in if r = [] then digits h else digits h \<and> digits (tl r))"

definition protocolSuffix :: "string \<Rightarrow> bool" where
  "protocolSuffix s = (s = ''/tcp'' \<or> s = ''/udp'' \<or> s = ''/sctp'')"

definition portPattern :: "string \<Rightarrow> bool" where
  "portPattern s =
     (let b = takeWhile (\<lambda>c. c \<noteq> CHR ''/'') s; p = dropWhile (\<lambda>c. c \<noteq> CHR ''/'') s
      in hostContainerPattern b \<and> (p = [] \<or> protocolSuffix p))"

text \<open>\<open>s.replace(/\/(?:tcp|udp|sctp)$/, '')\<close>: a protocol suffix at the end is removed.\<close>

definition stripProtocol :: "string \<Rightarrow> string" where
  "stripProtocol s =
     (if 4 \<le> length s \<and> (drop (length s - 4) s = ''/tcp'' \<or> drop (length s - 4) s = ''/udp'')
        then take (length s - 4) s
      else if 5 \<le> length s \<and> drop (length s - 5) s = ''/sctp'' then take (length s - 5) s
      else s)"

text \<open>
  The loop over \<open>ports\<close>: the first component out of range throws. NaN compares false with
  every number, so a component that is not a number passes.
\<close>

fun checkPorts :: "string list \<Rightarrow> error option" where
  "checkPorts [] = None"
| "checkPorts (p # ps) =
     (case parseInt p of
        None \<Rightarrow> checkPorts ps
      | Some portNum \<Rightarrow>
          if portNum < 1 \<or> portNum > 65535 then Some (PortOutOfRange (Some portNum))
          else checkPorts ps)"

definition addPublishPort :: "container \<Rightarrow> string list jsval \<Rightarrow> outcome" where
  "addPublishPort this port =
     (if notNonEmptyString port then (Some PortNotNonEmptyString, this)
      else let trimmedPort = trim (str_of port)
           in if \<not> portPattern trimmedPort then (Some PortBadFormat, this)
              else (case checkPorts (split CHR '':'' (stripProtocol trimmedPort)) of
                      Some e \<Rightarrow> (Some e, this)
                    | None \<Rightarrow> (None, this\<lparr>publishPort := publishPort this @ [trimmedPort]\<rparr>)))"

definition addEnvironment :: "container \<Rightarrow> string list jsval \<Rightarrow> outcome" where
  "addEnvironment this env =
     (if notNonEmptyString env then (Some EnvNotNonEmptyString, this)
      else let trimmedEnv = trim (str_of env)
           in if CHR ''='' \<notin> set trimmedEnv then (Some EnvBadFormat, this)
              else (None, this\<lparr>environment := environment this @ [trimmedEnv]\<rparr>))"

definition addVolume :: "container \<Rightarrow> string list jsval \<Rightarrow> outcome" where
  "addVolume this vol =
     (if notNonEmptyString vol then (Some VolumeNotNonEmptyString, this)
      else let trimmedVolume = trim (str_of vol)
           in if CHR '':'' \<notin> set trimmedVolume \<and> \<not> prefix ''/'' trimmedVolume
              then (Some VolumeBadFormat, this)
              else (None, this\<lparr>volume := volume this @ [trimmedVolume]\<rparr>))"

definition addLabel :: "container \<Rightarrow> string list jsval \<Rightarrow> outcome" where
  "addLabel this lbl =
     (if notNonEmptyString lbl then (Some LabelNotNonEmptyString, this)
      else let trimmedLabel = trim (str_of lbl)
           in if CHR ''='' \<notin> set trimmedLabel then (Some LabelBadFormat, this)
              else (None, this\<lparr>label := label this @ [trimmedLabel]\<rparr>))"

definition setPod :: "container \<Rightarrow> string list jsval \<Rightarrow> outcome" where
  "setPod this p = (None, this\<lparr>pod := p\<rparr>)"

section \<open>Structured values and side tables\<close>

text \<open>Classes \<open>Unit\<close>, \<open>Service\<close>, \<open>Install\<close> and \<open>Globals\<close>, with the capitalised keys the
  generator also reads. A list that is \<open>undefined\<close> is \<open>None\<close>.\<close>

record Unit =
  description :: "string list jsval"
  Description :: "string list jsval"
  wants :: "string list option"
  requires :: "string list option"
  bindTo :: "string list option"
  after :: "string list option"
  before :: "string list option"

record Service =
  restart :: "string list jsval"
  Restart :: "string list jsval"
  restartSec :: "string list jsval"
  RestartSec :: "string list jsval"
  timeoutStartSec :: "string list jsval"
  TimeoutStartSec :: "string list jsval"
  timeoutStopSec :: "string list jsval"

record Install =
  wantedBy :: "string list option"
  requiredBy :: "string list option"

record Globals =
  podmanArgs_globals :: "string list jsval"

text \<open>Class \<open>Volume\<close> and \<open>Volume.parse\<close>.\<close>

record Volume =
  source :: string
  destination :: string
  options :: "string list"

definition Volume_toString :: "Volume \<Rightarrow> string" where
  "Volume_toString v =
     source v @ '':'' @ destination v @
     (if length (options v) > 0 then '':'' @ join '','' (options v) else [])"

definition Volume_parse :: "string \<Rightarrow> error + Volume" where
  "Volume_parse volumeString =
     (let parts = split CHR '':'' volumeString
      in if length parts < 2 then Inl (InvalidVolumeFormat volumeString)
         else Inr \<lparr> source = parts ! 0, destination = parts ! 1,
                    options = (if length parts > 2 then split CHR '','' (parts ! 2) else []) \<rparr>)"

text \<open>Classes \<open>Volume\<close>, \<open>PortMapping\<close> and \<open>Environment\<close> with their \<open>toString\<close> and \<open>parse\<close>.
  A string that includes the separator splits into two parts at least, so the parts
  that \<open>PortMapping.parse\<close> reads are there.\<close>

record PortMapping =
  hostPort :: string
  containerPort :: string
  protocol :: string

definition PortMapping_toString :: "PortMapping \<Rightarrow> string" where
  "PortMapping_toString pm =
     (if hostPort pm = containerPort pm
      then (if protocol pm = ''tcp'' then hostPort pm else hostPort pm @ ''/'' @ protocol pm)
      else (if protocol pm = ''tcp'' then hostPort pm @ '':'' @ containerPort pm
            else hostPort pm @ '':'' @ containerPort pm @ ''/'' @ protocol pm))"

definition PortMapping_parse :: "string \<Rightarrow> PortMapping" where
  "PortMapping_parse portString =
     (let portPart = (if CHR ''/'' \<in> set portString then split CHR ''/'' portString ! 0
                      else portString);
          proto = (if CHR ''/'' \<in> set portString then split CHR ''/'' portString ! 1
                   else ''tcp'')
      in if CHR '':'' \<in> set portPart
         then \<lparr> hostPort = split CHR '':'' portPart ! 0,
                containerPort = split CHR '':'' portPart ! 1, protocol = proto \<rparr>
         else \<lparr> hostPort = portPart, containerPort = portPart, protocol = proto \<rparr>)"

text \<open>Class \<open>Environment\<close> and \<open>Environment.parse\<close>; \<open>indexOf\<close> gives \<open>None\<close> for \<open>-1\<close>.\<close>

record Environment =
  key_field :: string
  value_field :: string

definition Environment_toString :: "Environment \<Rightarrow> string" where
  "Environment_toString e = key_field e @ ''='' @ value_field e"

definition indexOf :: "char \<Rightarrow> string \<Rightarrow> nat option" where
  "indexOf c s = (if c \<in> set s then Some (length (takeWhile (\<lambda>x. x \<noteq> c) s)) else None)"

definition Environment_parse :: "string \<Rightarrow> Environment" where
  "Environment_parse envString =
     (case indexOf CHR ''='' envString of
        None \<Rightarrow> \<lparr> key_field = envString, value_field = [] \<rparr>
      | Some equalIndex \<Rightarrow>
          \<lparr> key_field = take equalIndex envString,
            value_field = drop (equalIndex + 1) envString \<rparr>)"

section \<open>The Quadlet generator\<close>

text \<open>
  The generator builds its result by appending to \<open>output\<close>. The model keeps the pieces
  apart: a section is the list of the strings appended, in the order of the appends,
  and the text returned is their concatenation. Apart from the section header \<open>[Name]\<close>, every
  piece is one line \<open>Key=value\<close> with its newline.
\<close>

definition sectionHeader :: "string \<Rightarrow> string" where
  "sectionHeader name = ''['' @ name @ '']'' @ nl"

definition line :: "string \<Rightarrow> string \<Rightarrow> string" where
  "line k v = k @ ''='' @ v @ nl"

text \<open>\<open>if (v) { output += `K=${v}\n` }\<close>\<close>

definition scalarLine :: "string \<Rightarrow> string list jsval \<Rightarrow> string list" where
  "scalarLine k v = (if truthy v then [line k (toStr v)] else [])"

text \<open>\<open>xs.forEach(x => { output += `K=${x}\n` })\<close>\<close>

definition eachLine :: "string \<Rightarrow> string list \<Rightarrow> string list" where
  "eachLine k xs = map (line k) xs"

text \<open>\<open>if (b) { output += 'K=true\n' }\<close>\<close>

definition flagLine :: "string \<Rightarrow> string list jsval \<Rightarrow> string list" where
  "flagLine k b = (if truthy b then [line k ''true''] else [])"

text \<open>\<open>if (xs.length > 0) { output += `K=${xs.join(sep)}\n` }\<close>\<close>

definition joinedLine :: "string \<Rightarrow> string \<Rightarrow> string list \<Rightarrow> string list" where
  "joinedLine k sep xs = (if length xs > 0 then [line k (join sep xs)] else [])"

text \<open>\<open>escapeValue\<close>: the elements escaped are strings, so \<open>typeof value === 'string'\<close> holds.\<close>

definition escapeValue :: "string \<Rightarrow> string" where
  "escapeValue v =
     (if CHR '' '' \<in> set v
      then [CHR 0x22] @ replaceAll (CHR 0x22) [CHR 0x5C, CHR 0x22]
             (replaceAll (CHR 0x5C) [CHR 0x5C, CHR 0x5C] v) @ [CHR 0x22]
      else v)"

text \<open>\<open>xs.forEach(x => { output += `K=${this.escapeValue(x)}\n` })\<close>\<close>

definition escapedLine :: "string \<Rightarrow> string list \<Rightarrow> string list" where
  "escapedLine k xs = map (\<lambda>x. line k (escapeValue x)) xs"

definition dnsLines :: "string list \<Rightarrow> string list" where
  "dnsLines xs =
     (if length xs > 0
      then (if ''none'' \<in> set xs then [line ''DNS'' ''none''] else eachLine ''DNS'' xs)
      else [])"

definition unmaskLine :: "string list jsval \<Rightarrow> string list" where
  "unmaskLine v =
     (if truthy v
      then (case v of JArr xs \<Rightarrow> [line ''Unmask'' (join '':'' xs)]
                    | _ \<Rightarrow> [line ''Unmask'' (toStr v)])
      else [])"

definition notifyLine :: "string \<Rightarrow> string list" where
  "notifyLine n =
     (if n \<noteq> [] \<and> n \<noteq> ''conmon''
      then (if n = ''container'' then [line ''Notify'' ''true'']
            else if n = ''healthy'' then [line ''Notify'' ''healthy'']
            else [])
      else [])"

definition containerChunks :: "container \<Rightarrow> string list" where
  "containerChunks c =
     [sectionHeader ''Container''] @
     [line ''Image'' (image_field c)] @
     scalarLine ''ContainerName'' (containerName c) @
     scalarLine ''Exec'' (exec c) @
     eachLine ''PublishPort'' (publishPort c) @
     eachLine ''Volume'' (volume c) @
     escapedLine ''Environment'' (environment c) @
     eachLine ''EnvironmentFile'' (environmentFile c) @
     flagLine ''EnvironmentHost'' (environmentHost c) @
     escapedLine ''Label'' (label c) @
     eachLine ''Network'' (network c) @
     eachLine ''NetworkAlias'' (networkAlias c) @
     joinedLine ''AddCapability'' '' '' (addCapability c) @
     joinedLine ''DropCapability'' '' '' (dropCapability c) @
     dnsLines (dns c) @
     eachLine ''DNSOption'' (dnsOption c) @
     eachLine ''DNSSearch'' (dnsSearch c) @
     flagLine ''NoNewPrivileges'' (noNewPrivileges c) @
     flagLine ''SecurityLabelDisable'' (securityLabelDisable c) @
     scalarLine ''SecurityLabelFileType'' (securityLabelFileType c) @
     scalarLine ''SecurityLabelLevel'' (securityLabelLevel c) @
     flagLine ''SecurityLabelNested'' (securityLabelNested c) @
     scalarLine ''SecurityLabelType'' (securityLabelType c) @
     scalarLine ''SeccompProfile'' (seccompProfile c) @
     joinedLine ''Mask'' '':'' (mask_field c) @
     unmaskLine (unmask c) @
     scalarLine ''User'' (user c) @
     scalarLine ''Group'' (group_field c) @
     eachLine ''GroupAdd'' (groupAdd c) @
     scalarLine ''UserNS'' (userNS c) @
     eachLine ''UIDMap'' (uidMap c) @
     eachLine ''GIDMap'' (gidMap c) @
     scalarLine ''SubUIDMap'' (subUidMap c) @
     scalarLine ''SubGIDMap'' (subGidMap c) @
     flagLine ''ReadOnly'' (readOnly c) @
     (if \<not> truthy (readOnlyTmpfs c) then [line ''ReadOnlyTmpfs'' ''false''] else []) @
     flagLine ''RunInit'' (runInit c) @
     scalarLine ''WorkingDir'' (workingDir c) @
     scalarLine ''HostName'' (hostName c) @
     scalarLine ''Timezone'' (timezone c) @
     scalarLine ''ShmSize'' (shmSize c) @
     eachLine ''Tmpfs'' (tmpfs c) @
     scalarLine ''HealthCmd'' (healthCmd c) @
     scalarLine ''HealthInterval'' (healthInterval c) @
     scalarLine ''HealthOnFailure'' (healthOnFailure c) @
     scalarLine ''HealthRetries'' (healthRetries c) @
     scalarLine ''HealthStartPeriod'' (healthStartPeriod c) @
     scalarLine ''HealthTimeout'' (healthTimeout c) @
     scalarLine ''HealthStartupCmd'' (healthStartupCmd c) @
     scalarLine ''HealthStartupInterval'' (healthStartupInterval c) @
     scalarLine ''HealthStartupRetries'' (healthStartupRetries c) @
     scalarLine ''HealthStartupSuccess'' (healthStartupSuccess c) @
     scalarLine ''HealthStartupTimeout'' (healthStartupTimeout c) @
     notifyLine (notify c) @
     scalarLine ''StopSignal'' (stopSignal c) @
     scalarLine ''StopTimeout'' (stopTimeout c) @
     scalarLine ''Pod'' (pod c) @
     scalarLine ''LogDriver'' (logDriver c) @
     eachLine ''LogOpt'' (logOpt c) @
     escapedLine ''Annotation'' (annotation c) @
     scalarLine ''PidsLimit'' (pidsLimit c) @
     eachLine ''Ulimit'' (ulimit c) @
     eachLine ''Sysctl'' (sysctl c) @
     scalarLine ''AutoUpdate'' (autoUpdate c) @
     scalarLine ''Pull'' (pull c) @
     eachLine ''Secret'' (secret c) @
     scalarLine ''Rootfs'' (rootfs c) @
     scalarLine ''Entrypoint'' (entrypoint c) @
     scalarLine ''IP'' (ip c) @
     scalarLine ''IP6'' (ip6 c) @
     scalarLine ''PodmanArgs'' (podmanArgs c)"

definition generateContainerSection :: "container \<Rightarrow> string" where
  "generateContainerSection c = concat (containerChunks c)"

text \<open>\<open>a || b\<close>\<close>

definition orElse :: "'a jsval \<Rightarrow> 'a jsval \<Rightarrow> 'a jsval" where
  "orElse a b = (if truthy a then a else b)"

text \<open>\<open>if (xs && xs.length > 0) { output += `K=${xs.join(' ')}\n` }\<close>\<close>

definition spacedLine :: "string \<Rightarrow> string list option \<Rightarrow> string list" where
  "spacedLine k xs =
     (case xs of None \<Rightarrow> [] | Some ys \<Rightarrow> if length ys > 0 then [line k (join '' '' ys)] else [])"

definition unitChunks :: "Unit \<Rightarrow> string list" where
  "unitChunks u =
     [sectionHeader ''Unit''] @
     scalarLine ''Description'' (orElse (description u) (Description u)) @
     spacedLine ''Wants'' (wants u) @
     spacedLine ''Requires'' (requires u) @
     spacedLine ''After'' (after u) @
     spacedLine ''Before'' (before u)"

definition generateUnitSection :: "Unit \<Rightarrow> string" where
  "generateUnitSection u = concat (unitChunks u)"

definition serviceChunks :: "Service \<Rightarrow> string list" where
  "serviceChunks s =
     [sectionHeader ''Service''] @
     scalarLine ''Restart'' (orElse (restart s) (Restart s)) @
     scalarLine ''RestartSec'' (orElse (restartSec s) (RestartSec s)) @
     scalarLine ''TimeoutStartSec'' (orElse (timeoutStartSec s) (TimeoutStartSec s))"

definition generateServiceSection :: "Service \<Rightarrow> string" where
  "generateServiceSection s = concat (serviceChunks s)"

definition installChunks :: "Install \<Rightarrow> string list" where
  "installChunks i =
     [sectionHeader ''Install''] @
     spacedLine ''WantedBy'' (wantedBy i) @
     spacedLine ''RequiredBy'' (requiredBy i)"

definition generateInstallSection :: "Install \<Rightarrow> string" where
  "generateInstallSection i = concat (installChunks i)"

text \<open>
  \<open>generateFile(container, {unit, service, install, globals})\<close>; an option that is absent
  (\<open>null\<close> by default) is \<open>None\<close>. The \<open>name\<close> option is read and never used.
\<close>

definition generateFile ::
  "container \<Rightarrow> Unit option \<Rightarrow> Service option \<Rightarrow> Install option \<Rightarrow> Globals option \<Rightarrow> string" where
  "generateFile c unit service install globals =
     (case unit of None \<Rightarrow> [] | Some u \<Rightarrow> generateUnitSection u @ nl) @
     generateContainerSection c @
     (case globals of
        None \<Rightarrow> []
      | Some g \<Rightarrow>
          if truthy (podmanArgs_globals g)
          then nl @ sectionHeader ''GlobalArgs'' @ line ''PodmanArgs'' (toStr (podmanArgs_globals g))
          else []) @
     (case service of None \<Rightarrow> [] | Some s \<Rightarrow> nl @ generateServiceSection s) @
     (case install of None \<Rightarrow> [] | Some i \<Rightarrow> nl @ generateInstallSection i)"

section \<open>Reading the container section\<close>

text \<open>
  A piece is keyed by \<open>k\<close> when it starts with \<open>k=\<close>; \<open>emitted k c\<close> are the pieces of the
  container section of \<open>c\<close> keyed by \<open>k\<close>, in the order they are appended. The pieces are
  a means of proof: the properties are stated on the lines of the text returned.
\<close>

definition keyed :: "string \<Rightarrow> string \<Rightarrow> bool" where
  "keyed k chunk = prefix (k @ ''='') chunk"

definition emitted :: "string \<Rightarrow> container \<Rightarrow> string list" where
  "emitted k c = filter (keyed k) (containerChunks c)"

text \<open>
  The lines of a text: what stands between the newlines, the last line with or without
  a newline of its own. \<open>linesKeyed k t\<close> are the lines of \<open>t\<close> that start with \<open>k=\<close>, in
  order, and \<open>lineValue k l\<close> is what follows \<open>k=\<close> on such a line.
\<close>

fun textLines :: "string \<Rightarrow> string list" where
  "textLines [] = []"
| "textLines (x # t) =
     (if x = CHR 0x0A then [] # textLines t
      else (case textLines t of [] \<Rightarrow> [[x]] | l # ls \<Rightarrow> (x # l) # ls))"

definition linesKeyed :: "string \<Rightarrow> string \<Rightarrow> string list" where
  "linesKeyed k t = filter (prefix (k @ ''='')) (textLines t)"

definition lineValue :: "string \<Rightarrow> string \<Rightarrow> string" where
  "lineValue k l = drop (length k + 1) l"

text \<open>Pieces none of which has a line break before its last character.\<close>

definition noLineBreaks :: "string list \<Rightarrow> bool" where
  "noLineBreaks ps = list_all (\<lambda>p. CHR 0x0A \<notin> set (butlast p)) ps"

text \<open>
  The escaping as the specification words it, one character at a time: a backslash is
  doubled and a double quote gets a backslash in front.
\<close>

definition escapeChar :: "char \<Rightarrow> string" where
  "escapeChar x =
     (if x = CHR 0x5C then [CHR 0x5C, CHR 0x5C]
      else if x = CHR 0x22 then [CHR 0x5C, CHR 0x22]
      else [x])"

text \<open>
  The keys of the container section by the statement that writes them, each with the
  field it reads: the dynamically typed scalars written under \<open>if (field)\<close>, the lists
  written one line per element, and the lists whose elements pass through \<open>escapeValue\<close>.
\<close>

definition scalarKeys :: "(string \<times> (container \<Rightarrow> string list jsval)) list" where
  "scalarKeys =
     [(''ContainerName'', containerName), (''Exec'', exec),
      (''SecurityLabelFileType'', securityLabelFileType),
      (''SecurityLabelLevel'', securityLabelLevel),
      (''SecurityLabelType'', securityLabelType),
      (''SeccompProfile'', seccompProfile),
      (''User'', user), (''Group'', group_field), (''UserNS'', userNS),
      (''SubUIDMap'', subUidMap), (''SubGIDMap'', subGidMap),
      (''WorkingDir'', workingDir), (''HostName'', hostName), (''Timezone'', timezone),
      (''ShmSize'', shmSize),
      (''HealthCmd'', healthCmd), (''HealthInterval'', healthInterval),
      (''HealthOnFailure'', healthOnFailure), (''HealthRetries'', healthRetries),
      (''HealthStartPeriod'', healthStartPeriod), (''HealthTimeout'', healthTimeout),
      (''HealthStartupCmd'', healthStartupCmd),
      (''HealthStartupInterval'', healthStartupInterval),
      (''HealthStartupRetries'', healthStartupRetries),
      (''HealthStartupSuccess'', healthStartupSuccess),
      (''HealthStartupTimeout'', healthStartupTimeout),
      (''StopSignal'', stopSignal), (''StopTimeout'', stopTimeout),
      (''Pod'', pod), (''LogDriver'', logDriver), (''PidsLimit'', pidsLimit),
      (''AutoUpdate'', autoUpdate), (''Pull'', pull),
      (''Rootfs'', rootfs), (''Entrypoint'', entrypoint),
      (''IP'', ip), (''IP6'', ip6), (''PodmanArgs'', podmanArgs)]"

definition listKeys :: "(string \<times> (container \<Rightarrow> string list)) list" where
  "listKeys =
     [(''PublishPort'', publishPort), (''Volume'', volume),
      (''EnvironmentFile'', environmentFile),
      (''Network'', network), (''NetworkAlias'', networkAlias),
      (''DNSOption'', dnsOption), (''DNSSearch'', dnsSearch),
      (''GroupAdd'', groupAdd), (''UIDMap'', uidMap), (''GIDMap'', gidMap),
      (''Tmpfs'', tmpfs), (''LogOpt'', logOpt),
      (''Ulimit'', ulimit), (''Sysctl'', sysctl), (''Secret'', secret)]"

definition escapedKeys :: "(string \<times> (container \<Rightarrow> string list)) list" where
  "escapedKeys = [(''Environment'', environment), (''Label'', label), (''Annotation'', annotation)]"

text \<open>
  The strings the generator writes as values: the image, the dynamically typed scalars
  as \<open>`${v}`\<close> prints them, the elements of the lists it reads, and \<open>unmask\<close> by its
  elements when it holds an array. A container is single-lined when none of them holds
  a line break. The flags and \<open>notify\<close> are written as fixed words, and \<open>addDevice\<close>,
  \<open>mount\<close> and \<open>exposeHostPort\<close> are not read.
\<close>

definition valueStrings :: "container \<Rightarrow> string list" where
  "valueStrings c =
     image_field c # map (\<lambda>(k, f). toStr (f c)) scalarKeys @
     concat (map (\<lambda>(k, f). f c) listKeys) @ concat (map (\<lambda>(k, f). f c) escapedKeys) @
     addCapability c @ dropCapability c @ mask_field c @ dns c @
     (case unmask c of JArr xs \<Rightarrow> xs | _ \<Rightarrow> [toStr (unmask c)])"

definition singleLined :: "container \<Rightarrow> bool" where
  "singleLined c = list_all (\<lambda>v. CHR 0x0A \<notin> set v) (valueStrings c)"

text \<open>
  The sections of a file that are present, in the order they are written: a table
  that is given contributes its section, and \<open>globals\<close> contributes when its
  \<open>podmanArgs\<close> is truthy.
\<close>

definition fileSections ::
  "container \<Rightarrow> Unit option \<Rightarrow> Service option \<Rightarrow> Install option \<Rightarrow> Globals option
     \<Rightarrow> string list" where
  "fileSections c unit service install globals =
     (case unit of None \<Rightarrow> [] | Some u \<Rightarrow> [generateUnitSection u]) @
     [generateContainerSection c] @
     (case globals of
        None \<Rightarrow> []
      | Some g \<Rightarrow>
          if truthy (podmanArgs_globals g)
          then [''[GlobalArgs]'' @ nl @ ''PodmanArgs='' @ toStr (podmanArgs_globals g) @ nl]
          else []) @
     (case service of None \<Rightarrow> [] | Some s \<Rightarrow> [generateServiceSection s]) @
     (case install of None \<Rightarrow> [] | Some i \<Rightarrow> [generateInstallSection i])"

text \<open>
  Structured values that their \<open>toString\<close> writes unambiguously: a port mapping of two
  digit strings and one of the three protocols; a volume whose source and destination
  have no colon and whose options have neither colon nor comma; an environment
  variable whose key has no equals sign.
\<close>

definition wfPort :: "PortMapping \<Rightarrow> bool" where
  "wfPort pm =
     (digits (hostPort pm) \<and> digits (containerPort pm)
      \<and> (protocol pm = ''tcp'' \<or> protocol pm = ''udp'' \<or> protocol pm = ''sctp''))"

definition wfVolume :: "Volume \<Rightarrow> bool" where
  "wfVolume v =
     (CHR '':'' \<notin> set (source v) \<and> CHR '':'' \<notin> set (destination v)
      \<and> list_all (\<lambda>x. CHR '':'' \<notin> set x \<and> CHR '','' \<notin> set x) (options v))"

definition wfEnvironment :: "Environment \<Rightarrow> bool" where
  "wfEnvironment e = (CHR ''='' \<notin> set (key_field e))"

text \<open>A text ends its last line: it is not empty and its last character is the newline.\<close>

definition endsNl :: "string \<Rightarrow> bool" where
  "endsNl x = (x \<noteq> [] \<and> last x = CHR 0x0A)"

text \<open>
  A port as the specification words it: a numeric component is in range when its
  decimal value is an integer from 1 to 65535.
\<close>

definition portInRange :: "string \<Rightarrow> bool" where
  "portInRange p = (1 \<le> decimal p \<and> decimal p \<le> 65535)"

text \<open>
  A container built through the validating mutators: the calls are performed in order
  on a new container, and a call that throws leaves the container as it was.
\<close>

datatype call =
    SetImage "string list jsval"
  | SetContainerName "string list jsval"
  | SetExec "string list jsval"
  | AddPublishPort "string list jsval"
  | AddEnvironment "string list jsval"
  | AddVolume "string list jsval"
  | AddLabel "string list jsval"

fun perform :: "container \<Rightarrow> call \<Rightarrow> outcome" where
  "perform c (SetImage v) = setImage c v"
| "perform c (SetContainerName v) = setContainerName c v"
| "perform c (SetExec v) = setExec c v"
| "perform c (AddPublishPort v) = addPublishPort c v"
| "perform c (AddEnvironment v) = addEnvironment c v"
| "perform c (AddVolume v) = addVolume c v"
| "perform c (AddLabel v) = addLabel c v"

definition build :: "call list \<Rightarrow> container" where
  "build cs = foldl (\<lambda>c x. snd (perform c x)) newContainer cs"

text \<open>What the mutators let into the three lists that are parsed back.\<close>

definition validEntries :: "container \<Rightarrow> bool" where
  "validEntries c =
     (list_all portPattern (publishPort c)
      \<and> list_all (\<lambda>e. CHR ''='' \<in> set e) (environment c)
      \<and> list_all (\<lambda>v. CHR '':'' \<in> set v \<or> prefix ''/'' v) (volume c))"

section \<open>Objects and arrays in a store\<close>

text \<open>
  Arrays are objects with an identity: a list field of a container object holds a
  reference to its array, and \<open>push\<close> changes the array every holder of the reference
  sees. The store maps the references handed out so far to the contents of their
  arrays, and \<open>next_addr\<close> is the next reference to hand out. A container object is a
  \<open>Container\<close> whose list fields are references; a dynamically typed field holds a
  primitive or, as \<open>JArr\<close>, a reference.
\<close>

type_synonym addr = nat

datatype store = Store (arrays: "addr \<Rightarrow> string list") (next_addr: addr)

type_synonym object = "addr Container"

text \<open>An array literal or a spread \<open>[...xs]\<close>: a new array with the given contents.\<close>

fun newArray :: "string list \<Rightarrow> store \<Rightarrow> addr \<times> store" where
  "newArray xs (Store f n) = (n, Store (f(n := xs)) (n + 1))"

text \<open>\<open>arr.push(x)\<close> on the array behind a reference.\<close>

fun push :: "addr \<Rightarrow> string \<Rightarrow> store \<Rightarrow> store" where
  "push a x (Store f n) = Store (f(a := f a @ [x])) n"

text \<open>\<open>new Container()\<close>: the array literals are evaluated in the order of the constructor.\<close>

definition construct :: "store \<Rightarrow> object \<times> store" where
  "construct st =
     (let (a_addCapability, st) = newArray [] st;
          (a_dropCapability, st) = newArray [] st;
          (a_addDevice, st) = newArray [] st;
          (a_mount, st) = newArray [] st;
          (a_volume, st) = newArray [] st;
          (a_network, st) = newArray [] st;
          (a_networkAlias, st) = newArray [] st;
          (a_publishPort, st) = newArray [] st;
          (a_exposeHostPort, st) = newArray [] st;
          (a_dns, st) = newArray [] st;
          (a_dnsOption, st) = newArray [] st;
          (a_dnsSearch, st) = newArray [] st;
          (a_environment, st) = newArray [] st;
          (a_environmentFile, st) = newArray [] st;
          (a_mask_field, st) = newArray [] st;
          (a_groupAdd, st) = newArray [] st;
          (a_uidMap, st) = newArray [] st;
          (a_gidMap, st) = newArray [] st;
          (a_tmpfs, st) = newArray [] st;
          (a_logOpt, st) = newArray [] st;
          (a_label, st) = newArray [] st;
          (a_annotation, st) = newArray [] st;
          (a_ulimit, st) = newArray [] st;
          (a_sysctl, st) = newArray [] st;
          (a_secret, st) = newArray [] st
      in (\<lparr> image_field = [], containerName = JNull, exec = JNull,
              addCapability = a_addCapability, dropCapability = a_dropCapability,
              addDevice = a_addDevice, mount = a_mount, volume = a_volume,
              network = a_network, networkAlias = a_networkAlias,
              publishPort = a_publishPort, exposeHostPort = a_exposeHostPort, ip = JNull,
              ip6 = JNull, dns = a_dns, dnsOption = a_dnsOption, dnsSearch = a_dnsSearch,
              environment = a_environment, environmentFile = a_environmentFile,
              environmentHost = JBool False, noNewPrivileges = JBool False,
              securityLabelDisable = JBool False, securityLabelFileType = JNull,
              securityLabelLevel = JNull, securityLabelNested = JBool False,
              securityLabelType = JNull, seccompProfile = JNull, mask_field = a_mask_field,
              unmask = JNull, user = JNull, group_field = JNull, groupAdd = a_groupAdd,
              userNS = JNull, uidMap = a_uidMap, gidMap = a_gidMap, subUidMap = JNull,
              subGidMap = JNull, readOnly = JBool False, readOnlyTmpfs = JBool True,
              runInit = JBool False, workingDir = JNull, hostName = JNull, timezone = JNull,
              shmSize = JNull, tmpfs = a_tmpfs, healthCmd = JNull, healthInterval = JNull,
              healthOnFailure = JNull, healthRetries = JNull, healthStartPeriod = JNull,
              healthStartupCmd = JNull, healthStartupInterval = JNull,
              healthStartupRetries = JNull, healthStartupSuccess = JNull,
              healthStartupTimeout = JNull, healthTimeout = JNull, notify = ''conmon'',
              stopSignal = JNull, stopTimeout = JNull, pod = JNull, logDriver = JNull,
              logOpt = a_logOpt, label = a_label, annotation = a_annotation,
              pidsLimit = JNull, ulimit = a_ulimit, sysctl = a_sysctl, autoUpdate = JNull,
              pull = JNull, secret = a_secret, rootfs = JNull, entrypoint = JNull,
              podmanArgs = JNull \<rparr>, st))"

text \<open>
  \<open>clone()\<close>: a new container, the assignments of the block "Copy primitive properties",
  then one spread per field of the block "Copy array properties".
\<close>

definition clone :: "store \<Rightarrow> object \<Rightarrow> object \<times> store" where
  "clone st this =
     (let (cloned, st) = construct st;
          cloned = cloned\<lparr>
            image_field := image_field this, containerName := containerName this,
            exec := exec this, ip := ip this, ip6 := ip6 this,
            environmentHost := environmentHost this, noNewPrivileges := noNewPrivileges this,
            securityLabelDisable := securityLabelDisable this,
            securityLabelFileType := securityLabelFileType this,
            securityLabelLevel := securityLabelLevel this,
            securityLabelNested := securityLabelNested this,
            securityLabelType := securityLabelType this,
            seccompProfile := seccompProfile this, unmask := unmask this, user := user this,
            group_field := group_field this, userNS := userNS this,
            subUidMap := subUidMap this, subGidMap := subGidMap this,
            readOnly := readOnly this, readOnlyTmpfs := readOnlyTmpfs this,
            runInit := runInit this, workingDir := workingDir this,
            hostName := hostName this, timezone := timezone this, shmSize := shmSize this,
            healthCmd := healthCmd this, healthInterval := healthInterval this,
            healthOnFailure := healthOnFailure this, healthRetries := healthRetries this,
            healthStartPeriod := healthStartPeriod this, healthTimeout := healthTimeout this,
            healthStartupCmd := healthStartupCmd this,
            healthStartupInterval := healthStartupInterval this,
            healthStartupRetries := healthStartupRetries this,
            healthStartupSuccess := healthStartupSuccess this,
            healthStartupTimeout := healthStartupTimeout this, notify := notify this,
            stopSignal := stopSignal this, stopTimeout := stopTimeout this, pod := pod this,
            logDriver := logDriver this, pidsLimit := pidsLimit this,
            autoUpdate := autoUpdate this, pull := pull this, rootfs := rootfs this,
            entrypoint := entrypoint this, podmanArgs := podmanArgs this\<rparr>;
          (a, st) = newArray (arrays st (addCapability this)) st; cloned = cloned\<lparr>addCapability := a\<rparr>;
          (a, st) = newArray (arrays st (dropCapability this)) st; cloned = cloned\<lparr>dropCapability := a\<rparr>;
          (a, st) = newArray (arrays st (addDevice this)) st; cloned = cloned\<lparr>addDevice := a\<rparr>;
          (a, st) = newArray (arrays st (mount this)) st; cloned = cloned\<lparr>mount := a\<rparr>;
          (a, st) = newArray (arrays st (volume this)) st; cloned = cloned\<lparr>volume := a\<rparr>;
          (a, st) = newArray (arrays st (network this)) st; cloned = cloned\<lparr>network := a\<rparr>;
          (a, st) = newArray (arrays st (networkAlias this)) st; cloned = cloned\<lparr>networkAlias := a\<rparr>;
          (a, st) = newArray (arrays st (publishPort this)) st; cloned = cloned\<lparr>publishPort := a\<rparr>;
          (a, st) = newArray (arrays st (exposeHostPort this)) st; cloned = cloned\<lparr>exposeHostPort := a\<rparr>;
          (a, st) = newArray (arrays st (dns this)) st; cloned = cloned\<lparr>dns := a\<rparr>;
          (a, st) = newArray (arrays st (dnsOption this)) st; cloned = cloned\<lparr>dnsOption := a\<rparr>;
          (a, st) = newArray (arrays st (dnsSearch this)) st; cloned = cloned\<lparr>dnsSearch := a\<rparr>;
          (a, st) = newArray (arrays st (environment this)) st; cloned = cloned\<lparr>environment := a\<rparr>;
          (a, st) = newArray (arrays st (environmentFile this)) st; cloned = cloned\<lparr>environmentFile := a\<rparr>;
          (a, st) = newArray (arrays st (mask_field this)) st; cloned = cloned\<lparr>mask_field := a\<rparr>;
          (a, st) = newArray (arrays st (groupAdd this)) st; cloned = cloned\<lparr>groupAdd := a\<rparr>;
          (a, st) = newArray (arrays st (uidMap this)) st; cloned = cloned\<lparr>uidMap := a\<rparr>;
          (a, st) = newArray (arrays st (gidMap this)) st; cloned = cloned\<lparr>gidMap := a\<rparr>;
          (a, st) = newArray (arrays st (tmpfs this)) st; cloned = cloned\<lparr>tmpfs := a\<rparr>;
          (a, st) = newArray (arrays st (label this)) st; cloned = cloned\<lparr>label := a\<rparr>;
          (a, st) = newArray (arrays st (logOpt this)) st; cloned = cloned\<lparr>logOpt := a\<rparr>;
          (a, st) = newArray (arrays st (annotation this)) st; cloned = cloned\<lparr>annotation := a\<rparr>;
          (a, st) = newArray (arrays st (ulimit this)) st; cloned = cloned\<lparr>ulimit := a\<rparr>;
          (a, st) = newArray (arrays st (sysctl this)) st; cloned = cloned\<lparr>sysctl := a\<rparr>;
          (a, st) = newArray (arrays st (secret this)) st; cloned = cloned\<lparr>secret := a\<rparr>
      in (cloned, st))"

text \<open>The value of a container object in a store: every reference replaced by its array.\<close>

definition view :: "store \<Rightarrow> object \<Rightarrow> container" where
  "view st obj =
     \<lparr> image_field = image_field obj,
       containerName = map_jsval (arrays st) (containerName obj),
       exec = map_jsval (arrays st) (exec obj),
       addCapability = arrays st (addCapability obj),
       dropCapability = arrays st (dropCapability obj),
       addDevice = arrays st (addDevice obj), mount = arrays st (mount obj),
       volume = arrays st (volume obj), network = arrays st (network obj),
       networkAlias = arrays st (networkAlias obj),
       publishPort = arrays st (publishPort obj),
       exposeHostPort = arrays st (exposeHostPort obj), ip = map_jsval (arrays st) (ip obj),
       ip6 = map_jsval (arrays st) (ip6 obj), dns = arrays st (dns obj),
       dnsOption = arrays st (dnsOption obj), dnsSearch = arrays st (dnsSearch obj),
       environment = arrays st (environment obj),
       environmentFile = arrays st (environmentFile obj),
       environmentHost = map_jsval (arrays st) (environmentHost obj),
       noNewPrivileges = map_jsval (arrays st) (noNewPrivileges obj),
       securityLabelDisable = map_jsval (arrays st) (securityLabelDisable obj),
       securityLabelFileType = map_jsval (arrays st) (securityLabelFileType obj),
       securityLabelLevel = map_jsval (arrays st) (securityLabelLevel obj),
       securityLabelNested = map_jsval (arrays st) (securityLabelNested obj),
       securityLabelType = map_jsval (arrays st) (securityLabelType obj),
       seccompProfile = map_jsval (arrays st) (seccompProfile obj),
       mask_field = arrays st (mask_field obj), unmask = map_jsval (arrays st) (unmask obj),
       user = map_jsval (arrays st) (user obj),
       group_field = map_jsval (arrays st) (group_field obj),
       groupAdd = arrays st (groupAdd obj), userNS = map_jsval (arrays st) (userNS obj),
       uidMap = arrays st (uidMap obj), gidMap = arrays st (gidMap obj),
       subUidMap = map_jsval (arrays st) (subUidMap obj),
       subGidMap = map_jsval (arrays st) (subGidMap obj),
       readOnly = map_jsval (arrays st) (readOnly obj),
       readOnlyTmpfs = map_jsval (arrays st) (readOnlyTmpfs obj),
       runInit = map_jsval (arrays st) (runInit obj),
       workingDir = map_jsval (arrays st) (workingDir obj),
       hostName = map_jsval (arrays st) (hostName obj),
       timezone = map_jsval (arrays st) (timezone obj),
       shmSize = map_jsval (arrays st) (shmSize obj), tmpfs = arrays st (tmpfs obj),
       healthCmd = map_jsval (arrays st) (healthCmd obj),
       healthInterval = map_jsval (arrays st) (healthInterval obj),
       healthOnFailure = map_jsval (arrays st) (healthOnFailure obj),
       healthRetries = map_jsval (arrays st) (healthRetries obj),
       healthStartPeriod = map_jsval (arrays st) (healthStartPeriod obj),
       healthStartupCmd = map_jsval (arrays st) (healthStartupCmd obj),
       healthStartupInterval = map_jsval (arrays st) (healthStartupInterval obj),
       healthStartupRetries = map_jsval (arrays st) (healthStartupRetries obj),
       healthStartupSuccess = map_jsval (arrays st) (healthStartupSuccess obj),
       healthStartupTimeout = map_jsval (arrays st) (healthStartupTimeout obj),
       healthTimeout = map_jsval (arrays st) (healthTimeout obj), notify = notify obj,
       stopSignal = map_jsval (arrays st) (stopSignal obj),
       stopTimeout = map_jsval (arrays st) (stopTimeout obj),
       pod = map_jsval (arrays st) (pod obj),
       logDriver = map_jsval (arrays st) (logDriver obj), logOpt = arrays st (logOpt obj),
       label = arrays st (label obj), annotation = arrays st (annotation obj),
       pidsLimit = map_jsval (arrays st) (pidsLimit obj), ulimit = arrays st (ulimit obj),
       sysctl = arrays st (sysctl obj), autoUpdate = map_jsval (arrays st) (autoUpdate obj),
       pull = map_jsval (arrays st) (pull obj), secret = arrays st (secret obj),
       rootfs = map_jsval (arrays st) (rootfs obj),
       entrypoint = map_jsval (arrays st) (entrypoint obj),
       podmanArgs = map_jsval (arrays st) (podmanArgs obj) \<rparr>"

text \<open>The list fields, as the selectors of their references.\<close>

definition listFields :: "(object \<Rightarrow> addr) list" where
  "listFields =
     [addCapability, dropCapability, addDevice, mount, volume, network, networkAlias,
      publishPort, exposeHostPort, dns, dnsOption, dnsSearch, environment, environmentFile,
      mask_field, groupAdd, uidMap, gidMap, tmpfs, label, logOpt, annotation, ulimit, sysctl,
      secret]"

text \<open>The dynamically typed fields, as the selectors of their values.\<close>

definition scalarFields :: "(object \<Rightarrow> addr jsval) list" where
  "scalarFields =
     [containerName, exec, ip, ip6, environmentHost, noNewPrivileges, securityLabelDisable,
      securityLabelFileType, securityLabelLevel, securityLabelNested, securityLabelType,
      seccompProfile, unmask, user, group_field, userNS, subUidMap, subGidMap, readOnly,
      readOnlyTmpfs, runInit, workingDir, hostName, timezone, shmSize, healthCmd,
      healthInterval, healthOnFailure, healthRetries, healthStartPeriod, healthStartupCmd,
      healthStartupInterval, healthStartupRetries, healthStartupSuccess,
      healthStartupTimeout, healthTimeout, stopSignal, stopTimeout, pod, logDriver,
      pidsLimit, autoUpdate, pull, rootfs, entrypoint, podmanArgs]"

text \<open>
  A container object lives in a store when every reference it holds has been handed
  out: the references of its list fields, and the reference of a dynamically typed
  field that holds an array.
\<close>

fun jsBelow :: "addr \<Rightarrow> addr jsval \<Rightarrow> bool" where
  "jsBelow n (JArr a) = (a < n)"
| "jsBelow n _ = True"

definition listsAllocated :: "store \<Rightarrow> object \<Rightarrow> bool" where
  "listsAllocated st c = list_all (\<lambda>fld. fld c < next_addr st) listFields"

definition allocated :: "store \<Rightarrow> object \<Rightarrow> bool" where
  "allocated st c =
     (listsAllocated st c \<and> list_all (\<lambda>fld. jsBelow (next_addr st) (fld c)) scalarFields)"

text \<open>\<open>v.push(x)\<close> on a dynamically typed value that holds an array.\<close>

fun pushOnto :: "addr jsval \<Rightarrow> string \<Rightarrow> store \<Rightarrow> store" where
  "pushOnto (JArr a) x st = push a x st"
| "pushOnto _ x st = st"

text \<open>
  The example: \<open>c = new Container(); c.image = 'nginx'; c.unmask = ['/proc/kcore']\<close> in
  an empty store, then \<open>d = c.clone()\<close>, then \<open>d.unmask.push('/sys')\<close>.
\<close>

definition unmaskExample :: "object \<times> store" where
  "unmaskExample =
     (let (c, st) = construct (Store (\<lambda>a. []) 0);
          (a, st) = newArray [''/proc/kcore''] st
      in (c\<lparr>image_field := ''nginx'', unmask := JArr a\<rparr>, st))"

definition unmaskCloned :: "object \<times> store" where
  "unmaskCloned = clone (snd unmaskExample) (fst unmaskExample)"

definition unmaskPushed :: store where
  "unmaskPushed = pushOnto (unmask (fst unmaskCloned)) ''/sys'' (snd unmaskCloned)"


section \<open>Properties of the generator\<close>

subsection \<open>Pieces and their keys\<close>

lemma keyed_line:
  assumes "CHR ''='' \<notin> set k" and "CHR ''='' \<notin> set k'"
  shows "keyed k (line k' v) = (k = k')"
proof
  assume "keyed k (line k' v)"
  then obtain r where r: "k' @ ''='' @ v @ nl = (k @ ''='') @ r"
    by (auto simp: keyed_def line_def prefix_def)
  have "takeWhile (\<lambda>x. x \<noteq> CHR ''='') (k' @ CHR ''='' # v @ nl) = k'"
    using assms(2) by (auto simp: takeWhile_tail)
  moreover have "takeWhile (\<lambda>x. x \<noteq> CHR ''='') (k @ CHR ''='' # r) = k"
    using assms(1) by (auto simp: takeWhile_tail)
  ultimately show "k = k'" using r by simp
next
  assume "k = k'"
  then show "keyed k (line k' v)" by (simp add: keyed_def line_def)
qed

lemma keyed_header:
  assumes "CHR ''='' \<notin> set k" and "CHR ''='' \<notin> set n"
  shows "\<not> keyed k (sectionHeader n)"
proof
  assume "keyed k (sectionHeader n)"
  then obtain r where "sectionHeader n = (k @ ''='') @ r"
    by (auto simp: keyed_def prefix_def)
  then have "CHR ''='' \<in> set (sectionHeader n)"
    by (metis in_set_conv_decomp append.assoc append_Cons)
  then show False using assms(2) by (simp add: sectionHeader_def)
qed

lemma filter_scalarLine:
  "CHR ''='' \<notin> set k \<Longrightarrow> CHR ''='' \<notin> set k' \<Longrightarrow>
   filter (keyed k) (scalarLine k' v) = (if k = k' then scalarLine k' v else [])"
  by (simp add: scalarLine_def keyed_line)

lemma filter_eachLine:
  "CHR ''='' \<notin> set k \<Longrightarrow> CHR ''='' \<notin> set k' \<Longrightarrow>
   filter (keyed k) (eachLine k' xs) = (if k = k' then eachLine k' xs else [])"
  by (simp add: eachLine_def keyed_line filter_map comp_def)

lemma filter_escapedLine:
  "CHR ''='' \<notin> set k \<Longrightarrow> CHR ''='' \<notin> set k' \<Longrightarrow>
   filter (keyed k) (escapedLine k' xs) = (if k = k' then escapedLine k' xs else [])"
  by (simp add: escapedLine_def keyed_line filter_map comp_def)

lemma filter_flagLine:
  "CHR ''='' \<notin> set k \<Longrightarrow> CHR ''='' \<notin> set k' \<Longrightarrow>
   filter (keyed k) (flagLine k' b) = (if k = k' then flagLine k' b else [])"
  by (simp add: flagLine_def keyed_line)

lemma filter_joinedLine:
  "CHR ''='' \<notin> set k \<Longrightarrow> CHR ''='' \<notin> set k' \<Longrightarrow>
   filter (keyed k) (joinedLine k' sep xs) = (if k = k' then joinedLine k' sep xs else [])"
  by (simp add: joinedLine_def keyed_line)

lemma filter_dnsLines:
  "CHR ''='' \<notin> set k \<Longrightarrow>
   filter (keyed k) (dnsLines xs) = (if k = ''DNS'' then dnsLines xs else [])"
  by (simp add: dnsLines_def keyed_line filter_eachLine)

lemma filter_unmaskLine:
  "CHR ''='' \<notin> set k \<Longrightarrow>
   filter (keyed k) (unmaskLine v) = (if k = ''Unmask'' then unmaskLine v else [])"
  by (cases v) (simp_all add: unmaskLine_def keyed_line)

lemma filter_notifyLine:
  "CHR ''='' \<notin> set k \<Longrightarrow>
   filter (keyed k) (notifyLine n) = (if k = ''Notify'' then notifyLine n else [])"
  by (simp add: notifyLine_def keyed_line)

lemmas filter_pieces = filter_scalarLine filter_eachLine filter_escapedLine filter_flagLine
  filter_joinedLine filter_dnsLines filter_unmaskLine filter_notifyLine keyed_line keyed_header

lemmas emitted_unfold = emitted_def containerChunks_def

text \<open>The pieces of each key, first for the fields with a condition of their own.\<close>

lemma emitted_DNS: "emitted ''DNS'' c = dnsLines (dns c)"
  by (simp add: emitted_unfold filter_pieces)

lemma emitted_Notify: "emitted ''Notify'' c = notifyLine (notify c)"
  by (simp add: emitted_unfold filter_pieces)

lemma emitted_Unmask: "emitted ''Unmask'' c = unmaskLine (unmask c)"
  by (simp add: emitted_unfold filter_pieces)

lemma emitted_Image: "emitted ''Image'' c = [line ''Image'' (image_field c)]"
  by (simp add: emitted_unfold filter_pieces)

lemma emitted_ReadOnlyTmpfs:
  "emitted ''ReadOnlyTmpfs'' c
     = (if truthy (readOnlyTmpfs c) then [] else [line ''ReadOnlyTmpfs'' ''false''])"
  by (simp add: emitted_unfold filter_pieces)

lemma emitted_flags:
  "emitted ''NoNewPrivileges'' c = flagLine ''NoNewPrivileges'' (noNewPrivileges c)"
  "emitted ''SecurityLabelDisable'' c = flagLine ''SecurityLabelDisable'' (securityLabelDisable c)"
  "emitted ''SecurityLabelNested'' c = flagLine ''SecurityLabelNested'' (securityLabelNested c)"
  "emitted ''EnvironmentHost'' c = flagLine ''EnvironmentHost'' (environmentHost c)"
  "emitted ''ReadOnly'' c = flagLine ''ReadOnly'' (readOnly c)"
  "emitted ''RunInit'' c = flagLine ''RunInit'' (runInit c)"
  by (simp_all add: emitted_unfold filter_pieces)

lemma emitted_escaped:
  "emitted ''Environment'' c = escapedLine ''Environment'' (environment c)"
  "emitted ''Label'' c = escapedLine ''Label'' (label c)"
  "emitted ''Annotation'' c = escapedLine ''Annotation'' (annotation c)"
  by (simp_all add: emitted_unfold filter_pieces)

lemma emitted_joined:
  "emitted ''AddCapability'' c = joinedLine ''AddCapability'' '' '' (addCapability c)"
  "emitted ''DropCapability'' c = joinedLine ''DropCapability'' '' '' (dropCapability c)"
  "emitted ''Mask'' c = joinedLine ''Mask'' '':'' (mask_field c)"
  by (simp_all add: emitted_unfold filter_pieces)

lemma emitted_scalars:
  "list_all (\<lambda>(k, f). emitted k c = scalarLine k (f c)) scalarKeys"
  unfolding scalarKeys_def list.pred_inject prod.case
  by (intro conjI TrueI) (simp_all add: emitted_unfold filter_pieces)

lemma emitted_lists:
  "list_all (\<lambda>(k, f). emitted k c = eachLine k (f c)) listKeys"
  unfolding listKeys_def list.pred_inject prod.case
  by (intro conjI TrueI) (simp_all add: emitted_unfold filter_pieces)

text \<open>No statement of the generator reads \<open>addDevice\<close>, \<open>mount\<close> or \<open>exposeHostPort\<close>.\<close>

lemma emitted_never:
  "emitted ''AddDevice'' c = []" "emitted ''Mount'' c = []" "emitted ''ExposeHostPort'' c = []"
  by (simp_all add: emitted_unfold filter_pieces)

subsection \<open>Pieces and lines\<close>

text \<open>Every piece ends with the newline of its line.\<close>

lemma endsNl_line [simp]: "endsNl (line k v)" by (simp add: endsNl_def line_def)
lemma endsNl_header [simp]: "endsNl (sectionHeader n)" by (simp add: endsNl_def sectionHeader_def)

lemma endsNl_pieces [simp]:
  "list_all endsNl (scalarLine k v)"
  "list_all endsNl (eachLine k xs)"
  "list_all endsNl (escapedLine k xs)"
  "list_all endsNl (flagLine k b)"
  "list_all endsNl (joinedLine k sep xs)"
  "list_all endsNl (spacedLine k ys)"
  "list_all endsNl (dnsLines xs)"
  "list_all endsNl (unmaskLine v)"
  "list_all endsNl (notifyLine n)"
  by (auto simp: scalarLine_def eachLine_def escapedLine_def flagLine_def joinedLine_def
      spacedLine_def dnsLines_def unmaskLine_def notifyLine_def list_all_iff
      split: option.splits jsval.splits)

lemma last_concat_endsNl:
  "xs \<noteq> [] \<Longrightarrow> list_all endsNl xs \<Longrightarrow> endsNl (concat xs)"
proof (induction xs)
  case Nil
  then show ?case by simp
next
  case (Cons a xs)
  show ?case
  proof (cases "xs = []")
    case True
    with Cons.prems show ?thesis by simp
  next
    case False
    with Cons have "endsNl (concat xs)" by simp
    then show ?thesis by (simp add: endsNl_def)
  qed
qed

lemma containerChunks_endsNl: "list_all endsNl (containerChunks c)"
  by (simp add: containerChunks_def)

text \<open>
  The lines of a text whose pieces end with a newline and hold no other: one line per
  piece, the piece without its newline.
\<close>

lemma textLines_Nil: "(textLines t = []) = (t = [])"
  by (cases t) (auto split: list.splits)

lemma textLines_line: "CHR 0x0A \<notin> set l \<Longrightarrow> textLines (l @ CHR 0x0A # t) = l # textLines t"
  by (induction l) auto

lemma textLines_append: "endsNl a \<Longrightarrow> textLines (a @ b) = textLines a @ textLines b"
proof (induction a)
  case Nil
  then show ?case by (simp add: endsNl_def)
next
  case (Cons x a)
  show ?case
  proof (cases "a = []")
    case True
    with Cons.prems show ?thesis by (simp add: endsNl_def)
  next
    case False
    with Cons.prems have "endsNl a" by (simp add: endsNl_def)
    then have ih: "textLines (a @ b) = textLines a @ textLines b" by (rule Cons.IH)
    from False have "textLines a \<noteq> []" by (simp add: textLines_Nil)
    then obtain l ls where "textLines a = l # ls" by (cases "textLines a") auto
    with ih show ?thesis by simp
  qed
qed

lemma textLines_piece:
  assumes "endsNl p" and "CHR 0x0A \<notin> set (butlast p)"
  shows "textLines p = [butlast p]"
proof -
  from assms(1) have "p = butlast p @ CHR 0x0A # []"
    by (metis endsNl_def append_butlast_last_id)
  then have "textLines p = textLines (butlast p @ CHR 0x0A # [])" by simp
  also have "\<dots> = [butlast p]" using assms(2) by (simp add: textLines_line)
  finally show ?thesis .
qed

lemma textLines_concat:
  "list_all endsNl ps \<Longrightarrow> noLineBreaks ps \<Longrightarrow> textLines (concat ps) = map butlast ps"
proof (induction ps)
  case Nil
  then show ?case by simp
next
  case (Cons p ps)
  then have "textLines (p @ concat ps) = textLines p @ textLines (concat ps)"
    by (simp add: textLines_append)
  with Cons show ?case by (simp add: textLines_piece noLineBreaks_def)
qed

lemma prefix_butlast:
  assumes "endsNl p" and "CHR 0x0A \<notin> set x" and "x \<noteq> []"
  shows "prefix x (butlast p) = prefix x p"
proof -
  from assms(1) have p: "p = butlast p @ [CHR 0x0A]"
    by (metis endsNl_def append_butlast_last_id)
  show ?thesis
  proof
    assume "prefix x (butlast p)"
    then show "prefix x p" by (metis p prefix_prefix)
  next
    assume "prefix x p"
    then have "prefix x (butlast p @ [CHR 0x0A])" using p by simp
    then have "prefix x (butlast p) \<or> x = butlast p @ [CHR 0x0A]"
      by (auto simp: prefix_snoc)
    moreover have "x \<noteq> butlast p @ [CHR 0x0A]"
      using assms(2) by auto
    ultimately show "prefix x (butlast p)" by simp
  qed
qed

lemma linesKeyed_concat:
  assumes "list_all endsNl ps" and "noLineBreaks ps" and "CHR 0x0A \<notin> set k"
  shows "linesKeyed k (concat ps) = map butlast (filter (keyed k) ps)"
proof -
  have "filter (prefix (k @ ''='')) (map butlast ps) = map butlast (filter (keyed k) ps)"
    using assms(1)
  proof (induction ps)
    case Nil
    then show ?case by simp
  next
    case (Cons p ps)
    then have "prefix (k @ ''='') (butlast p) = prefix (k @ ''='') p"
      using assms(3) by (intro prefix_butlast) auto
    with Cons show ?case by (simp add: keyed_def)
  qed
  then show ?thesis
    using assms(1,2) by (simp add: linesKeyed_def textLines_concat)
qed


lemma butlast_line: "butlast (line k v) = k @ ''='' @ v"
  by (simp add: line_def butlast_append)

lemma butlast_header: "butlast (sectionHeader n) = ''['' @ n @ '']''"
  by (simp add: sectionHeader_def butlast_append)

lemma noLineBreaks_append [simp]: "noLineBreaks (xs @ ys) = (noLineBreaks xs \<and> noLineBreaks ys)"
  by (simp add: noLineBreaks_def)

lemma noLineBreaks_Cons:
  "noLineBreaks (p # ps) = (CHR 0x0A \<notin> set (butlast p) \<and> noLineBreaks ps)"
  "noLineBreaks []"
  by (simp_all add: noLineBreaks_def)

lemma replaceAll_escape:
  "replaceAll (CHR 0x22) [CHR 0x5C, CHR 0x22] (replaceAll (CHR 0x5C) [CHR 0x5C, CHR 0x5C] v)
     = concat (map escapeChar v)"
  by (induction v) (auto simp: replaceAll_def escapeChar_def)

lemma set_escapeValue: "(CHR 0x0A \<in> set (escapeValue v)) = (CHR 0x0A \<in> set v)"
proof -
  have "(CHR 0x0A \<in> set (concat (map escapeChar v))) = (CHR 0x0A \<in> set v)"
    by (induction v) (auto simp: escapeChar_def)
  then show ?thesis
    by (simp add: escapeValue_def replaceAll_escape del: set_concat)
qed

lemma set_join:
  "list_all (\<lambda>x. c \<notin> set x) xs \<Longrightarrow> c \<notin> set sep \<Longrightarrow> c \<notin> set (join sep xs)"
  by (induction sep xs rule: join.induct) auto

lemma noLineBreaks_pieces:
  "CHR 0x0A \<notin> set k \<Longrightarrow> CHR 0x0A \<notin> set (toStr v) \<Longrightarrow> noLineBreaks (scalarLine k v)"
  "CHR 0x0A \<notin> set k \<Longrightarrow> list_all (\<lambda>x. CHR 0x0A \<notin> set x) xs \<Longrightarrow> noLineBreaks (eachLine k xs)"
  "CHR 0x0A \<notin> set k \<Longrightarrow> list_all (\<lambda>x. CHR 0x0A \<notin> set x) xs \<Longrightarrow> noLineBreaks (escapedLine k xs)"
  "CHR 0x0A \<notin> set k \<Longrightarrow> noLineBreaks (flagLine k b)"
  "CHR 0x0A \<notin> set k \<Longrightarrow> CHR 0x0A \<notin> set sep \<Longrightarrow> list_all (\<lambda>x. CHR 0x0A \<notin> set x) xs
     \<Longrightarrow> noLineBreaks (joinedLine k sep xs)"
  "list_all (\<lambda>x. CHR 0x0A \<notin> set x) xs \<Longrightarrow> noLineBreaks (dnsLines xs)"
  "noLineBreaks (notifyLine n)"
  by (auto simp: scalarLine_def eachLine_def escapedLine_def flagLine_def joinedLine_def
      dnsLines_def notifyLine_def noLineBreaks_def butlast_line list_all_iff set_escapeValue
      set_join [unfolded list_all_iff])

lemma noLineBreaks_unmask:
  "list_all (\<lambda>x. CHR 0x0A \<notin> set x) (case v of JArr xs \<Rightarrow> xs | _ \<Rightarrow> [toStr v])
     \<Longrightarrow> noLineBreaks (unmaskLine v)"
  by (cases v) (auto simp: unmaskLine_def noLineBreaks_def butlast_line set_join)

lemma singleLined_pieces: "singleLined c \<Longrightarrow> noLineBreaks (containerChunks c)"
  unfolding singleLined_def valueStrings_def scalarKeys_def listKeys_def escapedKeys_def
  by (simp add: containerChunks_def noLineBreaks_pieces noLineBreaks_unmask noLineBreaks_Cons
      butlast_line butlast_header)

lemma textLines_section:
  "singleLined c \<Longrightarrow> textLines (generateContainerSection c) = map butlast (containerChunks c)"
  by (simp add: generateContainerSection_def textLines_concat containerChunks_endsNl singleLined_pieces)

lemma linesKeyed_section:
  "singleLined c \<Longrightarrow> CHR 0x0A \<notin> set k
     \<Longrightarrow> linesKeyed k (generateContainerSection c) = map butlast (emitted k c)"
  by (simp add: generateContainerSection_def emitted_def linesKeyed_concat containerChunks_endsNl
      singleLined_pieces)

text \<open>No line of the text has the key of \<open>addDevice\<close>, \<open>mount\<close> or \<open>exposeHostPort\<close>.\<close>

lemma lines_never:
  "singleLined c \<Longrightarrow> linesKeyed ''AddDevice'' (generateContainerSection c) = []"
  "singleLined c \<Longrightarrow> linesKeyed ''Mount'' (generateContainerSection c) = []"
  "singleLined c \<Longrightarrow> linesKeyed ''ExposeHostPort'' (generateContainerSection c) = []"
  by (simp_all add: linesKeyed_section emitted_never)

subsection \<open>Evaluating the generator\<close>

lemmas emitters = sectionHeader_def line_def scalarLine_def eachLine_def escapedLine_def
  flagLine_def joinedLine_def dnsLines_def unmaskLine_def notifyLine_def

lemmas singleLined_unfold = singleLined_def valueStrings_def scalarKeys_def listKeys_def
  escapedKeys_def

lemmas mutators = build_def setImage_def setExec_def addEnvironment_def addVolume_def addLabel_def
  notNonEmptyString_def trim_def isWhiteSpace_def Let_def

subsection \<open>The DNS lines\<close>

text \<open>
  C9, amended. For a container none of whose written values holds a line break, the
  lines of the text of \<open>generateContainerSection\<close> that start with \<open>DNS=\<close> are: none for an
  empty \<open>dns\<close> list; the single line \<open>DNS=none\<close> when the list contains the entry \<open>none\<close>,
  whatever else it holds; otherwise one line \<open>DNS=<entry>\<close> per element, in the order of
  the list.
\<close>

theorem dns_none_collapse:
  "singleLined c \<Longrightarrow>
   linesKeyed ''DNS'' (generateContainerSection c) =
     (if dns c = [] then []
      else if ''none'' \<in> set (dns c) then [''DNS=none'']
      else map (\<lambda>d. ''DNS='' @ d) (dns c))"
  by (simp add: linesKeyed_section emitted_DNS dnsLines_def eachLine_def butlast_line comp_def)

theorem dns_none_collapse_witness:
  "singleLined (newContainer\<lparr>image_field := ''nginx'', dns := [''1.1.1.1'', ''none'', ''8.8.8.8'']\<rparr>)
   \<and> linesKeyed ''DNS''
        (generateContainerSection
           (newContainer\<lparr>image_field := ''nginx'', dns := [''1.1.1.1'', ''none'', ''8.8.8.8'']\<rparr>))
       = [''DNS=none'']
   \<and> singleLined (newContainer\<lparr>image_field := ''nginx'', dns := [''1.1.1.1'', ''8.8.8.8'']\<rparr>)
   \<and> linesKeyed ''DNS''
        (generateContainerSection (newContainer\<lparr>image_field := ''nginx'', dns := [''1.1.1.1'', ''8.8.8.8'']\<rparr>))
       = [''DNS=1.1.1.1'', ''DNS=8.8.8.8'']"
proof -
  have a: "singleLined (newContainer\<lparr>image_field := ''nginx'', dns := [''1.1.1.1'', ''none'', ''8.8.8.8'']\<rparr>)"
    by (simp add: singleLined_unfold newContainer_def)
  have b: "singleLined (newContainer\<lparr>image_field := ''nginx'', dns := [''1.1.1.1'', ''8.8.8.8'']\<rparr>)"
    by (simp add: singleLined_unfold newContainer_def)
  show ?thesis
    using dns_none_collapse [OF a] dns_none_collapse [OF b] a b by simp
qed

text \<open>
  Without the condition the claim fails: a \<open>dns\<close> entry that holds a line break is
  written as it is, so one entry that is not \<open>none\<close> gives the two lines \<open>DNS=1.1.1.1\<close> and
  \<open>DNS=none\<close>; and a command set by \<open>setExec\<close> that holds a line break puts a second \<open>DNS=\<close>
  line beside the \<open>DNS=none\<close> of a list that contains \<open>none\<close>.
\<close>

theorem dns_none_collapse_counterexample:
  "textLines (generateContainerSection
       (newContainer\<lparr>image_field := ''nginx'', dns := [''1.1.1.1'' @ nl @ ''DNS=none'']\<rparr>))
     = [''[Container]'', ''Image=nginx'', ''DNS=1.1.1.1'', ''DNS=none'']
   \<and> textLines (generateContainerSection
       ((build [SetImage (JStr ''nginx''), SetExec (JStr (''sh'' @ nl @ ''DNS=8.8.8.8''))])
          \<lparr>dns := [''none'']\<rparr>))
     = [''[Container]'', ''Image=nginx'', ''Exec=sh'', ''DNS=8.8.8.8'', ''DNS=none'']"
  by (simp add: generateContainerSection_def containerChunks_def emitters mutators newContainer_def)

subsection \<open>Flags\<close>

text \<open>
  C7, amended. For a container none of whose written values holds a line break, the
  lines of the text that start with the key of one of the flags \<open>noNewPrivileges\<close>,
  \<open>securityLabelDisable\<close>, \<open>securityLabelNested\<close>, \<open>environmentHost\<close>, \<open>readOnly\<close> and
  \<open>runInit\<close> are the one line \<open>Key=true\<close> when the field is truthy (for a boolean: when it
  is \<open>true\<close>) and none when it is falsy, so no \<open>Key=false\<close> line is written for them.
  \<open>readOnlyTmpfs\<close> is the other way round: the one line \<open>ReadOnlyTmpfs=false\<close> when the
  field is falsy (for a boolean: when it is \<open>false\<close>), and no line when it is truthy.
\<close>

theorem boolean_emission:
  "singleLined c \<Longrightarrow>
   linesKeyed ''NoNewPrivileges'' (generateContainerSection c)
     = (if truthy (noNewPrivileges c) then [''NoNewPrivileges=true''] else [])
   \<and> linesKeyed ''SecurityLabelDisable'' (generateContainerSection c)
       = (if truthy (securityLabelDisable c) then [''SecurityLabelDisable=true''] else [])
   \<and> linesKeyed ''SecurityLabelNested'' (generateContainerSection c)
       = (if truthy (securityLabelNested c) then [''SecurityLabelNested=true''] else [])
   \<and> linesKeyed ''EnvironmentHost'' (generateContainerSection c)
       = (if truthy (environmentHost c) then [''EnvironmentHost=true''] else [])
   \<and> linesKeyed ''ReadOnly'' (generateContainerSection c)
       = (if truthy (readOnly c) then [''ReadOnly=true''] else [])
   \<and> linesKeyed ''RunInit'' (generateContainerSection c)
       = (if truthy (runInit c) then [''RunInit=true''] else [])
   \<and> linesKeyed ''ReadOnlyTmpfs'' (generateContainerSection c)
       = (if truthy (readOnlyTmpfs c) then [] else [''ReadOnlyTmpfs=false''])"
  by (simp add: linesKeyed_section emitted_flags emitted_ReadOnlyTmpfs flagLine_def butlast_line)

theorem boolean_emission_witness:
  "singleLined (newContainer\<lparr>image_field := ''nginx'', readOnly := JBool True, readOnlyTmpfs := JBool False\<rparr>)
   \<and> linesKeyed ''ReadOnly''
        (generateContainerSection
           (newContainer\<lparr>image_field := ''nginx'', readOnly := JBool True, readOnlyTmpfs := JBool False\<rparr>))
       = [''ReadOnly=true'']
   \<and> linesKeyed ''ReadOnlyTmpfs''
        (generateContainerSection
           (newContainer\<lparr>image_field := ''nginx'', readOnly := JBool True, readOnlyTmpfs := JBool False\<rparr>))
       = [''ReadOnlyTmpfs=false'']
   \<and> linesKeyed ''RunInit''
        (generateContainerSection
           (newContainer\<lparr>image_field := ''nginx'', readOnly := JBool True, readOnlyTmpfs := JBool False\<rparr>))
       = []
   \<and> singleLined (newContainer\<lparr>image_field := ''nginx''\<rparr>)
   \<and> linesKeyed ''ReadOnlyTmpfs'' (generateContainerSection (newContainer\<lparr>image_field := ''nginx''\<rparr>)) = []"
proof -
  have a: "singleLined (newContainer\<lparr>image_field := ''nginx'', readOnly := JBool True,
                          readOnlyTmpfs := JBool False\<rparr>)"
    by (simp add: singleLined_unfold newContainer_def)
  have b: "singleLined (newContainer\<lparr>image_field := ''nginx''\<rparr>)"
    by (simp add: singleLined_unfold newContainer_def)
  show ?thesis
    using boolean_emission [OF a] boolean_emission [OF b] a b by (simp add: newContainer_def)
qed

text \<open>
  The claim as first stated fails where a flag holds something else than a boolean:
  \<open>readOnlyTmpfs = null\<close> writes \<open>ReadOnlyTmpfs=false\<close> for a field that was not set to
  \<open>false\<close>, and \<open>runInit = 'no'\<close> writes \<open>RunInit=true\<close>. It also fails where a value holds a
  line break: a command set by \<open>setExec\<close> can bring the line \<open>ReadOnly=false\<close> into the text.
\<close>

theorem boolean_emission_counterexample:
  "textLines (generateContainerSection
       (newContainer\<lparr>image_field := ''nginx'', readOnlyTmpfs := JNull, runInit := JStr ''no''\<rparr>))
     = [''[Container]'', ''Image=nginx'', ''ReadOnlyTmpfs=false'', ''RunInit=true'']
   \<and> textLines (generateContainerSection
       (build [SetImage (JStr ''nginx''), SetExec (JStr (''sh'' @ nl @ ''ReadOnly=false''))]))
     = [''[Container]'', ''Image=nginx'', ''Exec=sh'', ''ReadOnly=false'']"
  by (simp add: generateContainerSection_def containerChunks_def emitters mutators newContainer_def)

subsection \<open>Escaped values\<close>






subsection \<open>Scalar and list fields\<close>

lemma keys_single_line:
  "list_all (\<lambda>(k, f). CHR 0x0A \<notin> set k) scalarKeys"
  "list_all (\<lambda>(k, f). CHR 0x0A \<notin> set k) listKeys"
  by (simp_all add: scalarKeys_def listKeys_def)

lemma lines_scalars:
  assumes "singleLined c"
  shows "list_all (\<lambda>(k, f). linesKeyed k (generateContainerSection c) = map butlast (scalarLine k (f c)))
           scalarKeys"
proof -
  have "list_all (\<lambda>(k, f). CHR 0x0A \<notin> set k \<and> emitted k c = scalarLine k (f c)) scalarKeys"
    using keys_single_line(1) emitted_scalars [of c] by (simp add: list_all_iff split_def)
  then show ?thesis
    using assms by (auto simp: list_all_iff linesKeyed_section)
qed

lemma lines_lists:
  assumes "singleLined c"
  shows "list_all (\<lambda>(k, f). linesKeyed k (generateContainerSection c) = map butlast (eachLine k (f c)))
           listKeys"
proof -
  have "list_all (\<lambda>(k, f). CHR 0x0A \<notin> set k \<and> emitted k c = eachLine k (f c)) listKeys"
    using keys_single_line(2) emitted_lists [of c] by (simp add: list_all_iff split_def)
  then show ?thesis
    using assms by (auto simp: list_all_iff linesKeyed_section)
qed

lemma showInt_100: "showInt 100 = ''100''"
  by code_simp

text \<open>
  C6, amended. For a container none of whose written values holds a line break, the
  lines of the text of \<open>generateContainerSection\<close> that start with a key are as follows.
  \<open>Image\<close> always has its line. A dynamically typed scalar field of \<open>scalarKeys\<close> that is
  truthy (a non-empty string, a safe integer other than zero, \<open>true\<close>, an array) has
  exactly one line \<open>Key=value\<close>, and one that is \<open>undefined\<close>, \<open>null\<close> or the empty string has
  none; \<open>Unmask\<close> likewise, joining an array with colons. \<open>Notify\<close> has the line
  \<open>Notify=true\<close> for \<open>container\<close>, \<open>Notify=healthy\<close> for \<open>healthy\<close> and none otherwise. The
  list fields of \<open>listKeys\<close> have one line per element in the order of the list, those of
  \<open>escapedKeys\<close> likewise with the element escaped; \<open>AddCapability\<close> and \<open>DropCapability\<close>
  join a non-empty list with single spaces into one line and \<open>Mask\<close> with colons; \<open>DNS\<close> has
  one line per element unless the list contains \<open>none\<close>, and then the single line
  \<open>DNS=none\<close>. An empty list has no line.
\<close>

theorem container_field_emission:
  "singleLined c \<Longrightarrow>
   linesKeyed ''Image'' (generateContainerSection c) = [''Image='' @ image_field c]
   \<and> list_all (\<lambda>(k, f). truthy (f c) \<and> safeNumber (f c) \<longrightarrow>
          linesKeyed k (generateContainerSection c) = [k @ ''='' @ toStr (f c)]) scalarKeys
   \<and> list_all (\<lambda>(k, f). f c \<in> {JUndefined, JNull, JStr []} \<longrightarrow>
          linesKeyed k (generateContainerSection c) = []) scalarKeys
   \<and> (truthy (unmask c) \<and> safeNumber (unmask c) \<longrightarrow>
        linesKeyed ''Unmask'' (generateContainerSection c)
          = [''Unmask='' @ (case unmask c of JArr xs \<Rightarrow> join '':'' xs | _ \<Rightarrow> toStr (unmask c))])
   \<and> (unmask c \<in> {JUndefined, JNull, JStr []} \<longrightarrow>
        linesKeyed ''Unmask'' (generateContainerSection c) = [])
   \<and> linesKeyed ''Notify'' (generateContainerSection c)
       = (if notify c = ''container'' then [''Notify=true'']
          else if notify c = ''healthy'' then [''Notify=healthy'']
          else [])
   \<and> list_all (\<lambda>(k, f). linesKeyed k (generateContainerSection c) = map (\<lambda>x. k @ ''='' @ x) (f c))
         listKeys
   \<and> list_all (\<lambda>(k, f). linesKeyed k (generateContainerSection c)
                          = map (\<lambda>x. k @ ''='' @ escapeValue x) (f c)) escapedKeys
   \<and> linesKeyed ''AddCapability'' (generateContainerSection c)
       = (if addCapability c = [] then [] else [''AddCapability='' @ join '' '' (addCapability c)])
   \<and> linesKeyed ''DropCapability'' (generateContainerSection c)
       = (if dropCapability c = [] then [] else [''DropCapability='' @ join '' '' (dropCapability c)])
   \<and> linesKeyed ''Mask'' (generateContainerSection c)
       = (if mask_field c = [] then [] else [''Mask='' @ join '':'' (mask_field c)])
   \<and> linesKeyed ''DNS'' (generateContainerSection c)
       = (if ''none'' \<in> set (dns c) then [''DNS=none''] else map (\<lambda>d. ''DNS='' @ d) (dns c))"
proof -
  assume sl: "singleLined c"
  have scalars: "list_all (\<lambda>(k, f). truthy (f c) \<and> safeNumber (f c) \<longrightarrow>
          linesKeyed k (generateContainerSection c) = [k @ ''='' @ toStr (f c)]) scalarKeys"
    using lines_scalars [OF sl] by (auto simp: list_all_iff scalarLine_def butlast_line)
  have unset: "list_all (\<lambda>(k, f). f c \<in> {JUndefined, JNull, JStr []} \<longrightarrow>
          linesKeyed k (generateContainerSection c) = []) scalarKeys"
    using lines_scalars [OF sl] by (auto simp: list_all_iff scalarLine_def)
  have lists: "list_all (\<lambda>(k, f). linesKeyed k (generateContainerSection c)
                  = map (\<lambda>x. k @ ''='' @ x) (f c)) listKeys"
    using lines_lists [OF sl] by (auto simp: list_all_iff eachLine_def butlast_line comp_def)
  have escaped: "list_all (\<lambda>(k, f). linesKeyed k (generateContainerSection c)
                          = map (\<lambda>x. k @ ''='' @ escapeValue x) (f c)) escapedKeys"
    using sl
    by (simp add: escapedKeys_def linesKeyed_section emitted_escaped escapedLine_def butlast_line
        comp_def)
  have unmask1: "truthy (unmask c) \<and> safeNumber (unmask c) \<longrightarrow>
        linesKeyed ''Unmask'' (generateContainerSection c)
          = [''Unmask='' @ (case unmask c of JArr xs \<Rightarrow> join '':'' xs | _ \<Rightarrow> toStr (unmask c))]"
    using sl
    by (cases "unmask c") (simp_all add: linesKeyed_section emitted_Unmask unmaskLine_def butlast_line)
  have unmask2: "unmask c \<in> {JUndefined, JNull, JStr []} \<longrightarrow>
        linesKeyed ''Unmask'' (generateContainerSection c) = []"
    using sl by (auto simp: linesKeyed_section emitted_Unmask unmaskLine_def)
  have notify: "linesKeyed ''Notify'' (generateContainerSection c)
       = (if notify c = ''container'' then [''Notify=true'']
          else if notify c = ''healthy'' then [''Notify=healthy'']
          else [])"
    using sl by (auto simp: linesKeyed_section emitted_Notify notifyLine_def butlast_line)
  have dns: "linesKeyed ''DNS'' (generateContainerSection c)
       = (if ''none'' \<in> set (dns c) then [''DNS=none''] else map (\<lambda>d. ''DNS='' @ d) (dns c))"
    using sl by (auto simp: linesKeyed_section emitted_DNS dnsLines_def eachLine_def butlast_line comp_def)
  have rest: "linesKeyed ''Image'' (generateContainerSection c) = [''Image='' @ image_field c]"
    "linesKeyed ''AddCapability'' (generateContainerSection c)
       = (if addCapability c = [] then [] else [''AddCapability='' @ join '' '' (addCapability c)])"
    "linesKeyed ''DropCapability'' (generateContainerSection c)
       = (if dropCapability c = [] then [] else [''DropCapability='' @ join '' '' (dropCapability c)])"
    "linesKeyed ''Mask'' (generateContainerSection c)
       = (if mask_field c = [] then [] else [''Mask='' @ join '':'' (mask_field c)])"
    using sl
    by (simp_all add: linesKeyed_section emitted_Image emitted_joined joinedLine_def butlast_line)
  from scalars unset lists escaped unmask1 unmask2 notify dns rest show ?thesis
    by (intro conjI)
qed

theorem container_field_emission_witness:
  "singleLined (newContainer\<lparr>image_field := ''nginx'', publishPort := [''8080:80'', ''53/udp''],
       exec := JStr ''sh'', pidsLimit := JNum 100, addCapability := [''NET_ADMIN'', ''SYS_TIME'']\<rparr>)
   \<and> textLines (generateContainerSection
        (newContainer\<lparr>image_field := ''nginx'', publishPort := [''8080:80'', ''53/udp''],
           exec := JStr ''sh'', pidsLimit := JNum 100, addCapability := [''NET_ADMIN'', ''SYS_TIME'']\<rparr>))
       = [''[Container]'', ''Image=nginx'', ''Exec=sh'', ''PublishPort=8080:80'', ''PublishPort=53/udp'',
          ''AddCapability=NET_ADMIN SYS_TIME'', ''PidsLimit=100'']
   \<and> linesKeyed ''PublishPort'' (generateContainerSection
        (newContainer\<lparr>image_field := ''nginx'', publishPort := [''8080:80'', ''53/udp''],
           exec := JStr ''sh'', pidsLimit := JNum 100, addCapability := [''NET_ADMIN'', ''SYS_TIME'']\<rparr>))
       = [''PublishPort=8080:80'', ''PublishPort=53/udp'']
   \<and> linesKeyed ''Exec'' (generateContainerSection
        (newContainer\<lparr>image_field := ''nginx'', publishPort := [''8080:80'', ''53/udp''],
           exec := JStr ''sh'', pidsLimit := JNum 100, addCapability := [''NET_ADMIN'', ''SYS_TIME'']\<rparr>))
       = [''Exec=sh'']
   \<and> linesKeyed ''PidsLimit'' (generateContainerSection
        (newContainer\<lparr>image_field := ''nginx'', publishPort := [''8080:80'', ''53/udp''],
           exec := JStr ''sh'', pidsLimit := JNum 100, addCapability := [''NET_ADMIN'', ''SYS_TIME'']\<rparr>))
       = [''PidsLimit=100'']
   \<and> linesKeyed ''ContainerName'' (generateContainerSection
        (newContainer\<lparr>image_field := ''nginx'', publishPort := [''8080:80'', ''53/udp''],
           exec := JStr ''sh'', pidsLimit := JNum 100, addCapability := [''NET_ADMIN'', ''SYS_TIME'']\<rparr>))
       = []
   \<and> linesKeyed ''AddCapability'' (generateContainerSection
        (newContainer\<lparr>image_field := ''nginx'', publishPort := [''8080:80'', ''53/udp''],
           exec := JStr ''sh'', pidsLimit := JNum 100, addCapability := [''NET_ADMIN'', ''SYS_TIME'']\<rparr>))
       = [''AddCapability=NET_ADMIN SYS_TIME'']"
proof -
  have a: "singleLined (newContainer\<lparr>image_field := ''nginx'', publishPort := [''8080:80'', ''53/udp''],
       exec := JStr ''sh'', pidsLimit := JNum 100, addCapability := [''NET_ADMIN'', ''SYS_TIME'']\<rparr>)"
    by (simp add: singleLined_unfold newContainer_def showInt_100)
  have t: "textLines (generateContainerSection
        (newContainer\<lparr>image_field := ''nginx'', publishPort := [''8080:80'', ''53/udp''],
           exec := JStr ''sh'', pidsLimit := JNum 100, addCapability := [''NET_ADMIN'', ''SYS_TIME'']\<rparr>))
       = [''[Container]'', ''Image=nginx'', ''Exec=sh'', ''PublishPort=8080:80'', ''PublishPort=53/udp'',
          ''AddCapability=NET_ADMIN SYS_TIME'', ''PidsLimit=100'']"
    by (simp add: generateContainerSection_def containerChunks_def emitters newContainer_def
        showInt_100)
  show ?thesis
    using container_field_emission [OF a] a t
    by (simp add: scalarKeys_def listKeys_def newContainer_def showInt_100)
qed

text \<open>
  The claim as first stated fails at a \<open>dns\<close> list that contains \<open>none\<close>, which has one
  line and not one per element; at the default \<open>notify\<close>, a set scalar with no line; and at
  a volume entry that holds a line break, which \<open>addVolume\<close> accepts and which gives two
  \<open>Volume=\<close> lines for one element.
\<close>

theorem container_field_emission_counterexample:
  "textLines (generateContainerSection (newContainer\<lparr>image_field := ''nginx'', dns := [''1.1.1.1'', ''none'']\<rparr>))
     = [''[Container]'', ''Image=nginx'', ''DNS=none'']
   \<and> notify (newContainer\<lparr>image_field := ''nginx'', dns := [''1.1.1.1'', ''none'']\<rparr>) = ''conmon''
   \<and> textLines (generateContainerSection
        (build [SetImage (JStr ''nginx''), AddVolume (JStr (''/a:/b'' @ nl @ ''Volume=/:/host''))]))
     = [''[Container]'', ''Image=nginx'', ''Volume=/a:/b'', ''Volume=/:/host'']"
  by (simp add: generateContainerSection_def containerChunks_def emitters mutators newContainer_def)

subsection \<open>Sections of a file\<close>

lemma sections_end:
  "endsNl (generateContainerSection c)" "endsNl (generateUnitSection u)"
  "endsNl (generateServiceSection s)" "endsNl (generateInstallSection i)"
proof -
  show "endsNl (generateContainerSection c)"
    unfolding generateContainerSection_def
    by (rule last_concat_endsNl) (simp_all add: containerChunks_endsNl, simp add: containerChunks_def)
  show "endsNl (generateUnitSection u)"
    unfolding generateUnitSection_def
    by (rule last_concat_endsNl) (simp_all add: unitChunks_def)
  show "endsNl (generateServiceSection s)"
    unfolding generateServiceSection_def
    by (rule last_concat_endsNl) (simp_all add: serviceChunks_def)
  show "endsNl (generateInstallSection i)"
    unfolding generateInstallSection_def
    by (rule last_concat_endsNl) (simp_all add: installChunks_def)
qed

lemma sections_begin:
  "prefix (''[Container]'' @ nl) (generateContainerSection c)"
  "prefix (''[Unit]'' @ nl) (generateUnitSection u)"
  "prefix (''[Service]'' @ nl) (generateServiceSection s)"
  "prefix (''[Install]'' @ nl) (generateInstallSection i)"
  by (simp_all add: generateContainerSection_def generateUnitSection_def generateServiceSection_def
      generateInstallSection_def containerChunks_def unitChunks_def serviceChunks_def installChunks_def
      sectionHeader_def)

lemma generateFile_join:
  "generateFile c unit service install globals
     = join nl (fileSections c unit service install globals)"
  by (cases unit; cases service; cases install; cases globals)
     (simp_all add: generateFile_def fileSections_def sectionHeader_def line_def)

lemma fileSections_endsNl: "list_all endsNl (fileSections c unit service install globals)"
  by (cases unit; cases service; cases install; cases globals)
     (simp_all add: fileSections_def sections_end, simp_all add: endsNl_def)

lemma fileSections_nonempty: "fileSections c unit service install globals \<noteq> []"
  by (simp add: fileSections_def)

lemma textLines_join:
  "list_all endsNl secs \<Longrightarrow> secs \<noteq> [] \<Longrightarrow>
   textLines (join nl secs)
     = concat (map (\<lambda>s. textLines s @ [[]]) (butlast secs)) @ textLines (last secs)"
proof (induction secs)
  case Nil
  then show ?case by simp
next
  case (Cons x secs)
  show ?case
  proof (cases secs)
    case Nil
    then show ?thesis by simp
  next
    case (Cons y ys)
    with Cons.prems Cons.IH
    have ih: "textLines (join nl secs)
        = concat (map (\<lambda>s. textLines s @ [[]]) (butlast secs)) @ textLines (last secs)"
      by simp
    have "join nl (x # secs) = x @ nl @ join nl secs" using Cons by simp
    then have "textLines (join nl (x # secs)) = textLines x @ [] # textLines (join nl secs)"
      using Cons.prems by (simp add: textLines_append)
    with ih Cons show ?thesis by simp
  qed
qed

lemma blank_lines_join:
  assumes "list_all endsNl secs" and "list_all (\<lambda>s. [] \<notin> set (textLines s)) secs"
  shows "filter (\<lambda>l. l = []) (textLines (join nl secs)) = replicate (length secs - 1) []"
proof (cases "secs = []")
  case True
  then show ?thesis by simp
next
  case False
  have a: "filter (\<lambda>l. l = []) (textLines s) = []" if "s \<in> set secs" for s
    using assms(2) that by (auto simp: list_all_iff filter_empty_conv)
  have "filter (\<lambda>l. l = []) (concat (map (\<lambda>s. textLines s @ [[]]) xs)) = replicate (length xs) []"
    if "set xs \<subseteq> set secs" for xs
    using that by (induction xs) (simp_all add: a)
  moreover have "set (butlast secs) \<subseteq> set secs" by (auto dest: in_set_butlastD)
  moreover have "last secs \<in> set secs" using False by simp
  ultimately show ?thesis
    using assms(1) False by (simp add: textLines_join a)
qed

lemma long_pieces:
  "list_all (\<lambda>p. butlast p \<noteq> []) (scalarLine k v)"
  "list_all (\<lambda>p. butlast p \<noteq> []) (eachLine k xs)"
  "list_all (\<lambda>p. butlast p \<noteq> []) (escapedLine k xs)"
  "list_all (\<lambda>p. butlast p \<noteq> []) (flagLine k b)"
  "list_all (\<lambda>p. butlast p \<noteq> []) (joinedLine k sep xs)"
  "list_all (\<lambda>p. butlast p \<noteq> []) (dnsLines xs)"
  "list_all (\<lambda>p. butlast p \<noteq> []) (unmaskLine v)"
  "list_all (\<lambda>p. butlast p \<noteq> []) (notifyLine n)"
  by (auto simp: scalarLine_def eachLine_def escapedLine_def flagLine_def joinedLine_def
      dnsLines_def unmaskLine_def notifyLine_def list_all_iff butlast_line
      split: jsval.splits)

lemma containerChunks_long: "list_all (\<lambda>p. butlast p \<noteq> []) (containerChunks c)"
  by (simp add: containerChunks_def long_pieces butlast_line butlast_header)

lemma section_no_blank:
  "singleLined c \<Longrightarrow> [] \<notin> set (textLines (generateContainerSection c))"
  using containerChunks_long [of c] by (auto simp: textLines_section list_all_iff)

text \<open>
  C4, amended. The text of a file is its sections joined by one newline character each,
  in the order \<open>[Unit]\<close>, \<open>[Container]\<close>, \<open>[GlobalArgs]\<close>, \<open>[Service]\<close>, \<open>[Install]\<close>: the
  container section always, the unit, service and install sections when their table
  is given, and the global arguments when \<open>globals\<close> is given with a truthy \<open>podmanArgs\<close>.
  A section that is absent contributes nothing; a table that is given contributes its
  section, the header at least. Every section starts with its header line and ends with
  the newline of its last line, so the lines of the file are the lines of each section
  with one empty line after each section but the last. When no section holds an empty
  line of its own, which is so for the container section when none of its values holds
  a line break, the empty lines of the file are these alone: exactly one between two
  adjacent sections.
\<close>

theorem generateFile_sections:
  "generateFile c unit service install globals
     = join nl (fileSections c unit service install globals)
   \<and> textLines (generateFile c unit service install globals)
       = concat (map (\<lambda>s. textLines s @ [[]]) (butlast (fileSections c unit service install globals)))
         @ textLines (last (fileSections c unit service install globals))
   \<and> (list_all (\<lambda>s. [] \<notin> set (textLines s)) (fileSections c unit service install globals) \<longrightarrow>
        filter (\<lambda>l. l = []) (textLines (generateFile c unit service install globals))
          = replicate (length (fileSections c unit service install globals) - 1) [])
   \<and> (singleLined c \<longrightarrow> [] \<notin> set (textLines (generateContainerSection c)))
   \<and> prefix (''[Unit]'' @ nl) (generateUnitSection u') \<and> endsNl (generateUnitSection u')
   \<and> prefix (''[Container]'' @ nl) (generateContainerSection c) \<and> endsNl (generateContainerSection c)
   \<and> prefix (''[Service]'' @ nl) (generateServiceSection s') \<and> endsNl (generateServiceSection s')
   \<and> prefix (''[Install]'' @ nl) (generateInstallSection i') \<and> endsNl (generateInstallSection i')"
proof -
  have "textLines (generateFile c unit service install globals)
       = concat (map (\<lambda>s. textLines s @ [[]]) (butlast (fileSections c unit service install globals)))
         @ textLines (last (fileSections c unit service install globals))"
    unfolding generateFile_join
    by (rule textLines_join) (simp_all add: fileSections_endsNl fileSections_nonempty)
  moreover have
    "list_all (\<lambda>s. [] \<notin> set (textLines s)) (fileSections c unit service install globals) \<longrightarrow>
        filter (\<lambda>l. l = []) (textLines (generateFile c unit service install globals))
          = replicate (length (fileSections c unit service install globals) - 1) []"
    unfolding generateFile_join
    using blank_lines_join [OF fileSections_endsNl] by blast
  ultimately show ?thesis
    using sections_begin sections_end generateFile_join section_no_blank by blast
qed

theorem generateFile_sections_witness:
  "generateFile (newContainer\<lparr>image_field := ''nginx''\<rparr>)
     (Some \<lparr>description = JStr ''web'', Description = JUndefined, wants = Some [''a.service'', ''b.service''],
            requires = None, bindTo = None, after = None, before = None\<rparr>)
     None
     (Some \<lparr>wantedBy = Some [''default.target''], requiredBy = None\<rparr>)
     (Some \<lparr>podmanArgs_globals = JNull\<rparr>)
   = ''[Unit]'' @ nl @ ''Description=web'' @ nl @ ''Wants=a.service b.service'' @ nl @ nl @
     ''[Container]'' @ nl @ ''Image=nginx'' @ nl @ nl @
     ''[Install]'' @ nl @ ''WantedBy=default.target'' @ nl
   \<and> singleLined (newContainer\<lparr>image_field := ''nginx''\<rparr>)
   \<and> list_all (\<lambda>s. [] \<notin> set (textLines s))
        (fileSections (newContainer\<lparr>image_field := ''nginx''\<rparr>)
           (Some \<lparr>description = JStr ''web'', Description = JUndefined,
                   wants = Some [''a.service'', ''b.service''],
                   requires = None, bindTo = None, after = None, before = None\<rparr>)
           None
           (Some \<lparr>wantedBy = Some [''default.target''], requiredBy = None\<rparr>)
           (Some \<lparr>podmanArgs_globals = JNull\<rparr>))
   \<and> textLines (generateFile (newContainer\<lparr>image_field := ''nginx''\<rparr>)
        (Some \<lparr>description = JStr ''web'', Description = JUndefined,
                wants = Some [''a.service'', ''b.service''],
                requires = None, bindTo = None, after = None, before = None\<rparr>)
        None
        (Some \<lparr>wantedBy = Some [''default.target''], requiredBy = None\<rparr>)
        (Some \<lparr>podmanArgs_globals = JNull\<rparr>))
     = [''[Unit]'', ''Description=web'', ''Wants=a.service b.service'', [],
        ''[Container]'', ''Image=nginx'', [],
        ''[Install]'', ''WantedBy=default.target'']
   \<and> filter (\<lambda>l. l = [])
        (textLines (generateFile (newContainer\<lparr>image_field := ''nginx''\<rparr>)
           (Some \<lparr>description = JStr ''web'', Description = JUndefined,
                   wants = Some [''a.service'', ''b.service''],
                   requires = None, bindTo = None, after = None, before = None\<rparr>)
           None
           (Some \<lparr>wantedBy = Some [''default.target''], requiredBy = None\<rparr>)
           (Some \<lparr>podmanArgs_globals = JNull\<rparr>)))
     = [[], []]"
proof -
  have c: "generateContainerSection (newContainer\<lparr>image_field := ''nginx''\<rparr>)
          = ''[Container]'' @ nl @ ''Image=nginx'' @ nl"
    by (simp add: generateContainerSection_def containerChunks_def newContainer_def emitters)
  have a: "singleLined (newContainer\<lparr>image_field := ''nginx''\<rparr>)"
    by (simp add: singleLined_unfold newContainer_def)
  show ?thesis
    using generateFile_sections
      [of "newContainer\<lparr>image_field := ''nginx''\<rparr>"
          "Some \<lparr>description = JStr ''web'', Description = JUndefined,
                  wants = Some [''a.service'', ''b.service''],
                  requires = None, bindTo = None, after = None, before = None\<rparr>"
          None
          "Some \<lparr>wantedBy = Some [''default.target''], requiredBy = None\<rparr>"
          "Some \<lparr>podmanArgs_globals = JNull\<rparr>"] a
    by (simp add: c fileSections_def generateUnitSection_def unitChunks_def generateInstallSection_def
        installChunks_def sectionHeader_def line_def scalarLine_def spacedLine_def orElse_def)
qed

text \<open>
  The claim as first stated fails for a command that ends with a line break, which
  \<open>setExec\<close> stores as it is: two empty lines stand between \<open>Exec=sh\<close> and \<open>[Service]\<close>. And a
  service table that is given with nothing to write still has its header in the file.
\<close>

theorem generateFile_sections_counterexample:
  "textLines (generateFile (build [SetImage (JStr ''x''), SetExec (JStr (''sh'' @ nl))]) None
       (Some \<lparr>restart = JStr ''always'', Restart = JUndefined, restartSec = JUndefined,
               RestartSec = JUndefined, timeoutStartSec = JUndefined, TimeoutStartSec = JUndefined,
               timeoutStopSec = JUndefined\<rparr>)
       None None)
     = [''[Container]'', ''Image=x'', ''Exec=sh'', [], [], ''[Service]'', ''Restart=always'']
   \<and> generateFile (build [SetImage (JStr ''x'')]) None
       (Some \<lparr>restart = JNull, Restart = JUndefined, restartSec = JNull,
               RestartSec = JUndefined, timeoutStartSec = JNull, TimeoutStartSec = JUndefined,
               timeoutStopSec = JNull\<rparr>)
       None None
     = ''[Container]'' @ nl @ ''Image=x'' @ nl @ nl @ ''[Service]'' @ nl"
  by (simp add: generateFile_def generateContainerSection_def containerChunks_def emitters mutators
      newContainer_def generateServiceSection_def serviceChunks_def orElse_def)

section \<open>Properties of the mutators\<close>

subsection \<open>Trimming\<close>

lemma not_ws_alnum: "isAlnum c \<Longrightarrow> \<not> isWhiteSpace c"
  by (auto simp: isWhiteSpace_def isAlnum_def isAlpha_def isDigit_def)

lemma not_ws_nameChar: "isNameChar c \<Longrightarrow> \<not> isWhiteSpace c"
  by (auto simp: isNameChar_def not_ws_alnum) (auto simp: isWhiteSpace_def)

lemma trim_id:
  assumes "s \<noteq> []" and "\<not> isWhiteSpace (hd s)" and "\<not> isWhiteSpace (last s)"
  shows "trim s = s"
proof -
  from assms(1,2) have "dropWhile isWhiteSpace s = s"
    by (cases s) simp_all
  moreover from assms(1,3) have "dropWhile isWhiteSpace (rev s) = rev s"
    by (cases s rule: rev_cases) simp_all
  ultimately show ?thesis by (simp add: trim_def)
qed

lemma namePattern_trim: "namePattern s \<Longrightarrow> trim s = s"
proof (rule trim_id)
  assume n: "namePattern s"
  then show "s \<noteq> []" by auto
  from n show "\<not> isWhiteSpace (hd s)" by (cases s) (auto simp: not_ws_alnum)
  from n show "\<not> isWhiteSpace (last s)"
    by (cases s) (auto simp: not_ws_alnum not_ws_nameChar list_all_iff)
qed

lemma notNonEmptyString_JStr: "notNonEmptyString (JStr s) = (trim s = [])"
  by (auto simp: notNonEmptyString_def trim_def)

lemma notNonEmptyString_other: "typeof v \<noteq> ''string'' \<Longrightarrow> notNonEmptyString v"
  by (simp add: notNonEmptyString_def)

subsection \<open>Container names\<close>

text \<open>
  C8, amended. \<open>setContainerName\<close> accepts a string exactly when the string with the white
  space at its ends removed matches \<open>^[a-zA-Z0-9][a-zA-Z0-9_.-]*$\<close>, and stores that trimmed
  string as the container name; a rejected call leaves the container as it was. A string
  that itself matches the pattern has no white space at its ends, so it is accepted and
  stored as it is. A value that is not a string is rejected.
\<close>

theorem name_validation:
  "(fst (setContainerName c (JStr s)) = None) = namePattern (trim s)
   \<and> snd (setContainerName c (JStr s))
       = (if namePattern (trim s) then c\<lparr>containerName := JStr (trim s)\<rparr> else c)
   \<and> (namePattern s \<longrightarrow> trim s = s)
   \<and> (typeof v \<noteq> ''string'' \<longrightarrow> fst (setContainerName c v) \<noteq> None \<and> snd (setContainerName c v) = c)"
  by (auto simp: setContainerName_def notNonEmptyString_JStr notNonEmptyString_other Let_def
      namePattern_trim)

theorem name_validation_witness:
  "namePattern ''my_app-1'' \<and> trim ''my_app-1'' = ''my_app-1''
   \<and> fst (setContainerName newContainer (JStr ''my_app-1'')) = None
   \<and> containerName (snd (setContainerName newContainer (JStr ''my_app-1''))) = JStr ''my_app-1''
   \<and> fst (setContainerName newContainer (JStr ''-bad'')) \<noteq> None
   \<and> fst (setContainerName newContainer (JStr ''bad name'')) \<noteq> None
   \<and> typeof (JNum 7 :: string list jsval) \<noteq> ''string''
   \<and> fst (setContainerName newContainer (JNum 7)) \<noteq> None"
  using name_validation [of newContainer "''my_app-1''" "JNum 7"]
    name_validation [of newContainer "''-bad''" "JNum 7"]
    name_validation [of newContainer "''bad name''" "JNum 7"]
  by (simp add: trim_def isWhiteSpace_def isAlnum_def isAlpha_def isDigit_def isNameChar_def)

text \<open>
  A string with a leading space does not match the pattern, and is accepted all the
  same: the test is made on the trimmed string.
\<close>

theorem name_validation_counterexample:
  "fst (setContainerName newContainer (JStr '' web'')) = None
   \<and> containerName (snd (setContainerName newContainer (JStr '' web''))) = JStr ''web''
   \<and> \<not> namePattern '' web''"
  by (simp add: setContainerName_def notNonEmptyString_def trim_def isWhiteSpace_def isAlnum_def
      isAlpha_def isDigit_def isNameChar_def Let_def)

subsection \<open>Published ports\<close>

lemma split_no_sep: "c \<notin> set xs \<Longrightarrow> split c xs = [xs]"
  by (induction xs) auto

lemma split_sep: "c \<notin> set xs \<Longrightarrow> split c (xs @ c # ys) = xs # split c ys"
  by (induction xs) auto

lemma digits_chars:
  assumes "digits s"
  shows "CHR '':'' \<notin> set s" and "CHR ''/'' \<notin> set s" and "s \<noteq> []"
    and "\<not> isWhiteSpace (hd s)" and "\<not> isWhiteSpace (last s)"
    and "isDigit (hd s)"
proof -
  have d: "\<And>x. x \<in> set s \<Longrightarrow> isDigit x" and ne: "s \<noteq> []"
    using assms by (auto simp: digits_def list_all_iff)
  show "CHR '':'' \<notin> set s" "CHR ''/'' \<notin> set s"
    using d [of "CHR '':''"] d [of "CHR ''/''"] by (auto simp: isDigit_def)
  show "s \<noteq> []" by (rule ne)
  have "isDigit (hd s)" "isDigit (last s)" using d ne by auto
  then show "\<not> isWhiteSpace (hd s)" "\<not> isWhiteSpace (last s)" "isDigit (hd s)"
    by (auto simp: isDigit_def isWhiteSpace_def)
qed

lemma parseInt_digits: "digits p \<Longrightarrow> parseInt p = Some (int (decimal p))"
proof -
  assume d: "digits p"
  then obtain x xs where p: "p = x # xs" by (cases p) (auto simp: digits_def)
  with d have x: "isDigit x" and xs: "list_all isDigit xs" by (auto simp: digits_def)
  from x have "\<not> isWhiteSpace x" "x \<noteq> CHR ''-''" "x \<noteq> CHR ''+''"
    by (auto simp: isDigit_def isWhiteSpace_def)
  moreover have "takeWhile isDigit (x # xs) = x # xs"
    using x xs by (simp add: list_all_iff)
  ultimately show ?thesis using p by (simp add: parseInt_def Let_def)
qed

lemma hostContainer_split:
  assumes "hostContainerPattern b"
  shows "list_all digits (split CHR '':'' b)"
proof -
  let ?P = "\<lambda>c. c \<noteq> CHR '':''"
  let ?h = "takeWhile ?P b" and ?r = "dropWhile ?P b"
  have b: "b = ?h @ ?r" by simp
  have h: "CHR '':'' \<notin> set ?h" by (auto dest: set_takeWhileD)
  show ?thesis
  proof (cases "?r = []")
    case True
    with assms have "digits ?h" by (simp add: hostContainerPattern_def Let_def)
    moreover from True have bh: "?h = b" by (simp add: takeWhile_eq_all_conv)
    moreover have "split CHR '':'' b = [b]" using h bh by (simp add: split_no_sep)
    ultimately show ?thesis by simp
  next
    case False
    with assms have dh: "digits ?h" and dr: "digits (tl ?r)"
      by (simp_all add: hostContainerPattern_def Let_def)
    from False have "hd ?r = CHR '':''" using hd_dropWhile [of ?P b] by auto
    with False have r: "?r = CHR '':'' # tl ?r" by (cases ?r) auto
    have "split CHR '':'' b = ?h # split CHR '':'' (tl ?r)"
      using split_sep [OF h, of "tl ?r"] b r by metis
    also have "split CHR '':'' (tl ?r) = [tl ?r]"
      using digits_chars(1) [OF dr] by (rule split_no_sep)
    finally show ?thesis using dh dr by simp
  qed
qed

lemma hostContainer_ends:
  assumes "hostContainerPattern b"
  shows "b \<noteq> []" and "\<not> isWhiteSpace (hd b)" and "\<not> isWhiteSpace (last b)"
    and "CHR ''/'' \<notin> set b"
proof -
  let ?P = "\<lambda>c. c \<noteq> CHR '':''"
  let ?h = "takeWhile ?P b" and ?r = "dropWhile ?P b"
  have b: "b = ?h @ ?r" by simp
  have dh: "digits ?h" using assms by (simp add: hostContainerPattern_def Let_def split: if_splits)
  have hne: "?h \<noteq> []" using digits_chars(3) [OF dh] .
  then show "b \<noteq> []" by auto
  have "hd b = hd ?h" using hne b by (metis hd_append2)
  then show "\<not> isWhiteSpace (hd b)" using digits_chars(4) [OF dh] by simp
  show "\<not> isWhiteSpace (last b)"
  proof (cases "?r = []")
    case True
    then have hb: "?h = b" by (simp add: takeWhile_eq_all_conv)
    from digits_chars(5) [OF dh] show ?thesis unfolding hb .
  next
    case False
    with assms have dr: "digits (tl ?r)" by (simp add: hostContainerPattern_def Let_def)
    from False have "?r = hd ?r # tl ?r" by simp
    then have "last b = last (tl ?r)"
      using digits_chars(3) [OF dr] b by (metis last_appendR last_ConsR False)
    then show ?thesis using digits_chars(5) [OF dr] by simp
  qed
  show "CHR ''/'' \<notin> set b"
  proof (cases "?r = []")
    case True
    then have hb: "?h = b" by (simp add: takeWhile_eq_all_conv)
    from digits_chars(2) [OF dh] show ?thesis unfolding hb .
  next
    case False
    with assms have dr: "digits (tl ?r)" by (simp add: hostContainerPattern_def Let_def)
    from False have "hd ?r = CHR '':''" using hd_dropWhile [of ?P b] by auto
    with False have r: "?r = CHR '':'' # tl ?r" by (cases ?r) auto
    have "set b = set ?h \<union> set ?r" using b by (metis set_append)
    also have "set ?r = insert CHR '':'' (set (tl ?r))" using r by (metis list.simps(15))
    finally show ?thesis using digits_chars(2) [OF dh] digits_chars(2) [OF dr] by simp
  qed
qed


lemma dropWhile_slash:
  "dropWhile (\<lambda>c. c \<noteq> CHR ''/'') (b @ p) = p"
  if "CHR ''/'' \<notin> set b" and "p = [] \<or> hd p = CHR ''/''"
  using that by (cases p) (auto simp: dropWhile_append)

lemma portPattern_decomp:
  assumes "portPattern t"
  obtains b p where "t = b @ p" and "hostContainerPattern b" and "p = [] \<or> protocolSuffix p"
proof -
  let ?P = "\<lambda>c. c \<noteq> CHR ''/''"
  have "t = takeWhile ?P t @ dropWhile ?P t" by simp
  moreover have "hostContainerPattern (takeWhile ?P t)"
    and "dropWhile ?P t = [] \<or> protocolSuffix (dropWhile ?P t)"
    using assms by (simp_all add: portPattern_def Let_def)
  ultimately show ?thesis using that by blast
qed

lemma stripProtocol_pattern:
  assumes "hostContainerPattern b" and "p = [] \<or> protocolSuffix p"
  shows "stripProtocol (b @ p) = b"
proof -
  have nos: "CHR ''/'' \<notin> set b" using hostContainer_ends(4) [OF assms(1)] .
  from assms(2) consider "p = []" | "p = ''/tcp''" | "p = ''/udp''" | "p = ''/sctp''"
    by (auto simp: protocolSuffix_def)
  then show ?thesis
  proof cases
    case 1
    have "drop (length b - 4) b \<noteq> ''/tcp''" "drop (length b - 4) b \<noteq> ''/udp''"
      "drop (length b - 5) b \<noteq> ''/sctp''"
      using nos by (metis in_set_dropD list.set_intros(1))+
    with 1 show ?thesis by (simp add: stripProtocol_def)
  next
    case 2
    then show ?thesis by (simp add: stripProtocol_def)
  next
    case 3
    then show ?thesis by (simp add: stripProtocol_def)
  next
    case 4
    then show ?thesis by (simp add: stripProtocol_def)
  qed
qed

lemma portPattern_trim: "portPattern t \<Longrightarrow> trim t = t"
proof (rule trim_id)
  assume "portPattern t"
  then obtain b p where t: "t = b @ p" and b: "hostContainerPattern b"
    and p: "p = [] \<or> protocolSuffix p" by (rule portPattern_decomp)
  note e = hostContainer_ends [OF b]
  show "t \<noteq> []" using t e(1) by simp
  show "\<not> isWhiteSpace (hd t)" using t e(1,2) by simp
  from p consider "p = []" | "p = ''/tcp''" | "p = ''/udp''" | "p = ''/sctp''"
    by (auto simp: protocolSuffix_def)
  then show "\<not> isWhiteSpace (last t)"
    using t e(1,3) by cases (simp_all add: isWhiteSpace_def)
qed

lemma checkPorts_digits:
  "list_all digits ps \<Longrightarrow> (checkPorts ps = None) = list_all portInRange ps"
  by (induction ps) (auto simp: parseInt_digits portInRange_def)

lemma checkPorts_pattern:
  assumes "portPattern t"
  shows "(checkPorts (split CHR '':'' (stripProtocol t)) = None)
           = list_all portInRange (split CHR '':'' (stripProtocol t))"
proof -
  from assms obtain b p where t: "t = b @ p" and b: "hostContainerPattern b"
    and p: "p = [] \<or> protocolSuffix p" by (rule portPattern_decomp)
  have "stripProtocol t = b" using stripProtocol_pattern [OF b p] t by simp
  then show ?thesis using hostContainer_split [OF b] by (simp add: checkPorts_digits)
qed

lemma portPattern_nonempty: "portPattern t \<Longrightarrow> t \<noteq> []"
  using hostContainer_ends(1) by (auto elim!: portPattern_decomp)

lemma addPublishPort_JStr:
  "addPublishPort c (JStr s) =
     (if portPattern (trim s) \<and> list_all portInRange (split CHR '':'' (stripProtocol (trim s)))
      then (None, c\<lparr>publishPort := publishPort c @ [trim s]\<rparr>)
      else (if trim s = [] then Some PortNotNonEmptyString
            else if \<not> portPattern (trim s) then Some PortBadFormat
            else checkPorts (split CHR '':'' (stripProtocol (trim s))), c))"
proof (cases "portPattern (trim s)")
  case False
  then show ?thesis
    by (simp add: addPublishPort_def notNonEmptyString_JStr Let_def)
next
  case True
  note ne = portPattern_nonempty [OF True]
  note cp = checkPorts_pattern [OF True]
  show ?thesis
  proof (cases "checkPorts (split CHR '':'' (stripProtocol (trim s)))")
    case None
    with cp True ne show ?thesis
      by (simp add: addPublishPort_def notNonEmptyString_JStr Let_def)
  next
    case (Some e)
    with cp True ne show ?thesis
      by (simp add: addPublishPort_def notNonEmptyString_JStr Let_def)
  qed
qed

lemma takeWhile_slash:
  "takeWhile (\<lambda>c. c \<noteq> CHR ''/'') (b @ p) = b"
  if "CHR ''/'' \<notin> set b" and "p = [] \<or> hd p = CHR ''/''"
  using that by (cases p) (auto simp: takeWhile_tail)

lemma hostContainer_regex:
  "hostContainerPattern b = (digits b \<or> (\<exists>d c. b = d @ '':'' @ c \<and> digits d \<and> digits c))"
proof
  let ?P = "\<lambda>c. c \<noteq> CHR '':''"
  let ?h = "takeWhile ?P b" and ?r = "dropWhile ?P b"
  assume hc: "hostContainerPattern b"
  show "digits b \<or> (\<exists>d c. b = d @ '':'' @ c \<and> digits d \<and> digits c)"
  proof (cases "?r = []")
    case True
    then have hb: "?h = b" by (simp add: takeWhile_eq_all_conv)
    from hc True have "digits ?h" by (simp add: hostContainerPattern_def Let_def)
    then show ?thesis unfolding hb ..
  next
    case False
    with hc have dh: "digits ?h" and dr: "digits (tl ?r)"
      by (simp_all add: hostContainerPattern_def Let_def)
    from False have "hd ?r = CHR '':''" using hd_dropWhile [of ?P b] by auto
    with False have "?r = '':'' @ tl ?r" by (cases ?r) auto
    then have "b = ?h @ '':'' @ tl ?r" by (metis takeWhile_dropWhile_id)
    with dh dr show ?thesis by blast
  qed
next
  assume "digits b \<or> (\<exists>d c. b = d @ '':'' @ c \<and> digits d \<and> digits c)"
  then show "hostContainerPattern b"
  proof
    assume d: "digits b"
    then have "CHR '':'' \<notin> set b" by (rule digits_chars(1))
    then have tw: "takeWhile (\<lambda>c. c \<noteq> CHR '':'') b = b"
      and dw: "dropWhile (\<lambda>c. c \<noteq> CHR '':'') b = []"
      by (auto simp: takeWhile_eq_all_conv)
    show ?thesis unfolding hostContainerPattern_def Let_def tw dw using d by simp
  next
    assume "\<exists>d c. b = d @ '':'' @ c \<and> digits d \<and> digits c"
    then obtain d c where b: "b = d @ CHR '':'' # c" and d: "digits d" and c: "digits c" by auto
    have "CHR '':'' \<notin> set d" using d by (rule digits_chars(1))
    then have tw: "takeWhile (\<lambda>c. c \<noteq> CHR '':'') b = d"
      and dw: "dropWhile (\<lambda>c. c \<noteq> CHR '':'') b = CHR '':'' # c"
      unfolding b by (auto simp: takeWhile_tail dropWhile_append3)
    show ?thesis unfolding hostContainerPattern_def Let_def tw dw using d c by simp
  qed
qed

lemma portPattern_regex:
  "portPattern s =
     (\<exists>h c p. s = h @ c @ p \<and> (h = [] \<or> (\<exists>d. digits d \<and> h = d @ '':'')) \<and> digits c
        \<and> (p = [] \<or> p = ''/tcp'' \<or> p = ''/udp'' \<or> p = ''/sctp''))"
proof
  assume "portPattern s"
  then obtain b p where s: "s = b @ p" and b: "hostContainerPattern b"
    and p: "p = [] \<or> protocolSuffix p" by (rule portPattern_decomp)
  from b consider "digits b" | d c where "b = d @ '':'' @ c" "digits d" "digits c"
    unfolding hostContainer_regex by blast
  then show "\<exists>h c p. s = h @ c @ p \<and> (h = [] \<or> (\<exists>d. digits d \<and> h = d @ '':'')) \<and> digits c
        \<and> (p = [] \<or> p = ''/tcp'' \<or> p = ''/udp'' \<or> p = ''/sctp'')"
  proof cases
    case 1
    with s p have "s = [] @ b @ p \<and> digits b \<and> (p = [] \<or> p = ''/tcp'' \<or> p = ''/udp'' \<or> p = ''/sctp'')"
      by (simp add: protocolSuffix_def)
    then show ?thesis by blast
  next
    case 2
    with s p have "s = (d @ '':'') @ c @ p \<and> digits d \<and> digits c
        \<and> (p = [] \<or> p = ''/tcp'' \<or> p = ''/udp'' \<or> p = ''/sctp'')"
      by (simp add: protocolSuffix_def)
    then show ?thesis by blast
  qed
next
  assume "\<exists>h c p. s = h @ c @ p \<and> (h = [] \<or> (\<exists>d. digits d \<and> h = d @ '':'')) \<and> digits c
        \<and> (p = [] \<or> p = ''/tcp'' \<or> p = ''/udp'' \<or> p = ''/sctp'')"
  then obtain h c p where s: "s = (h @ c) @ p" and h: "h = [] \<or> (\<exists>d. digits d \<and> h = d @ '':'')"
    and c: "digits c" and p: "p = [] \<or> p = ''/tcp'' \<or> p = ''/udp'' \<or> p = ''/sctp''" by auto
  have hc: "hostContainerPattern (h @ c)"
    unfolding hostContainer_regex using h c by auto
  have p': "p = [] \<or> hd p = CHR ''/''" using p by auto
  have tw: "takeWhile (\<lambda>c. c \<noteq> CHR ''/'') s = h @ c"
    and dw: "dropWhile (\<lambda>c. c \<noteq> CHR ''/'') s = p"
    unfolding s using takeWhile_slash [OF hostContainer_ends(4) [OF hc] p']
      dropWhile_slash [OF hostContainer_ends(4) [OF hc] p'] by simp_all
  show "portPattern s"
    unfolding portPattern_def Let_def tw dw using hc p by (auto simp: protocolSuffix_def)
qed

text \<open>
  C2, amended. \<open>addPublishPort\<close> accepts a string exactly when the string with the white
  space at its ends removed matches \<open>^(\d+:)?\d+(\/(?:tcp|udp|sctp))?$\<close> and every
  colon-separated component of it, the protocol suffix stripped, is in the range 1 to
  65535; it then appends the trimmed string, and otherwise throws and leaves the
  container as it was. A string that itself matches the pattern has no white space at
  its ends, so for it acceptance is the range condition on its own components. A value
  that is not a string is rejected. The last conjunct reads \<open>portPattern\<close> as the regular
  expression: an optional host part of digits and a colon, digits, and an optional
  protocol suffix.
\<close>

theorem port_validation:
  "(fst (addPublishPort c (JStr s)) = None)
     = (portPattern (trim s) \<and> list_all portInRange (split CHR '':'' (stripProtocol (trim s))))
   \<and> snd (addPublishPort c (JStr s))
       = (if fst (addPublishPort c (JStr s)) = None then c\<lparr>publishPort := publishPort c @ [trim s]\<rparr>
          else c)
   \<and> (portPattern s \<longrightarrow> trim s = s)
   \<and> (typeof v \<noteq> ''string'' \<longrightarrow> fst (addPublishPort c v) \<noteq> None \<and> snd (addPublishPort c v) = c)
   \<and> portPattern s =
       (\<exists>h c p. s = h @ c @ p \<and> (h = [] \<or> (\<exists>d. digits d \<and> h = d @ '':'')) \<and> digits c
          \<and> (p = [] \<or> p = ''/tcp'' \<or> p = ''/udp'' \<or> p = ''/sctp''))"
proof -
  have 1: "(fst (addPublishPort c (JStr s)) = None)
     = (portPattern (trim s) \<and> list_all portInRange (split CHR '':'' (stripProtocol (trim s))))"
  proof (cases "portPattern (trim s) \<and> list_all portInRange (split CHR '':'' (stripProtocol (trim s)))")
    case True
    then show ?thesis by (simp add: addPublishPort_JStr)
  next
    case False
    have "fst (addPublishPort c (JStr s)) \<noteq> None"
    proof (cases "portPattern (trim s)")
      case True
      with False have "checkPorts (split CHR '':'' (stripProtocol (trim s))) \<noteq> None"
        using checkPorts_pattern [OF True] by simp
      with False True show ?thesis
        by (simp add: addPublishPort_JStr portPattern_nonempty)
    next
      case False
      then show ?thesis by (simp add: addPublishPort_JStr)
    qed
    with False show ?thesis by blast
  qed
  have 2: "snd (addPublishPort c (JStr s))
       = (if fst (addPublishPort c (JStr s)) = None then c\<lparr>publishPort := publishPort c @ [trim s]\<rparr>
          else c)"
    unfolding 1 by (simp add: addPublishPort_JStr)
  have 3: "typeof v \<noteq> ''string'' \<Longrightarrow> fst (addPublishPort c v) \<noteq> None \<and> snd (addPublishPort c v) = c"
    by (simp add: addPublishPort_def notNonEmptyString_other)
  show ?thesis
    using 3 portPattern_trim [of s] by (intro conjI impI) (rule 1, rule 2, simp_all, rule portPattern_regex)
qed


theorem port_validation_witness:
  "portPattern ''8080:80'' \<and> trim ''8080:80'' = ''8080:80''
   \<and> addPublishPort newContainer (JStr ''8080:80'') = (None, newContainer\<lparr>publishPort := [''8080:80'']\<rparr>)
   \<and> addPublishPort newContainer (JStr ''80/udp'') = (None, newContainer\<lparr>publishPort := [''80/udp'']\<rparr>)
   \<and> fst (addPublishPort newContainer (JStr ''0:80'')) \<noteq> None
   \<and> snd (addPublishPort newContainer (JStr ''0:80'')) = newContainer
   \<and> fst (addPublishPort newContainer (JStr ''80/http'')) \<noteq> None
   \<and> typeof (JNum 80 :: string list jsval) \<noteq> ''string''
   \<and> fst (addPublishPort newContainer (JNum 80)) \<noteq> None"
proof -
  have e: "publishPort newContainer = []" by (simp add: newContainer_def)
  have t: "trim ''80/udp'' = ''80/udp''" "trim ''0:80'' = ''0:80''" "trim ''80/http'' = ''80/http''"
    "trim ''8080:80'' = ''8080:80''"
    by (simp_all add: trim_def isWhiteSpace_def)
  have p: "portPattern ''8080:80''" "portPattern ''80/udp''" "portPattern ''0:80''" "\<not> portPattern ''80/http''"
    by (simp_all add: portPattern_def hostContainerPattern_def digits_def isDigit_def protocolSuffix_def)
  have r: "list_all portInRange (split CHR '':'' (stripProtocol ''8080:80''))"
    "list_all portInRange (split CHR '':'' (stripProtocol ''80/udp''))"
    "\<not> list_all portInRange (split CHR '':'' (stripProtocol ''0:80''))"
    by (simp_all add: stripProtocol_def portInRange_def decimal_def)
  show ?thesis
    using port_validation [of newContainer "''8080:80''" "JNum 80"]
      port_validation [of newContainer "''80/udp''" "JNum 80"]
      port_validation [of newContainer "''0:80''" "JNum 80"]
      port_validation [of newContainer "''80/http''" "JNum 80"]
    unfolding t by (simp add: e p r prod_eq_iff)
qed

text \<open>
  A string with a leading space does not match the pattern, and is accepted all the
  same: the test is made on the trimmed string.
\<close>

theorem port_validation_counterexample:
  "addPublishPort newContainer (JStr '' 80'') = (None, newContainer\<lparr>publishPort := [''80'']\<rparr>)
   \<and> \<not> portPattern '' 80''"
proof -
  have "trim '' 80'' = ''80''" by (simp add: trim_def isWhiteSpace_def)
  moreover have "portPattern ''80''" "\<not> portPattern '' 80''"
    by (simp_all add: portPattern_def hostContainerPattern_def digits_def isDigit_def)
  moreover have "checkPorts (split CHR '':'' (stripProtocol ''80'')) = None"
    by (simp add: stripProtocol_def parseInt_def isWhiteSpace_def isDigit_def decimal_def)
  moreover have "publishPort newContainer = []" by (simp add: newContainer_def)
  ultimately show ?thesis
    by (simp add: addPublishPort_def notNonEmptyString_JStr Let_def)
qed

subsection \<open>Atomicity\<close>

text \<open>
  C10. Each validating mutator either throws and leaves the container exactly as it was,
  or returns and has changed the one field it is about: \<open>setImage\<close> and \<open>setContainerName\<close>
  store the trimmed string, \<open>setExec\<close> stores its argument as it is given, and
  \<open>addPublishPort\<close>, \<open>addEnvironment\<close>, \<open>addVolume\<close> and \<open>addLabel\<close> append the trimmed string
  to their list. The container after the call is the second component of the outcome,
  which is what \<open>return this\<close> hands back.
\<close>

theorem mutator_atomicity:
  "snd (setImage c v) = (if fst (setImage c v) = None then c\<lparr>image_field := trim (str_of v)\<rparr> else c)
   \<and> snd (setContainerName c v)
       = (if fst (setContainerName c v) = None then c\<lparr>containerName := JStr (trim (str_of v))\<rparr> else c)
   \<and> snd (setExec c v) = (if fst (setExec c v) = None then c\<lparr>exec := v\<rparr> else c)
   \<and> snd (addPublishPort c v)
       = (if fst (addPublishPort c v) = None then c\<lparr>publishPort := publishPort c @ [trim (str_of v)]\<rparr>
          else c)
   \<and> snd (addEnvironment c v)
       = (if fst (addEnvironment c v) = None then c\<lparr>environment := environment c @ [trim (str_of v)]\<rparr>
          else c)
   \<and> snd (addVolume c v)
       = (if fst (addVolume c v) = None then c\<lparr>volume := volume c @ [trim (str_of v)]\<rparr> else c)
   \<and> snd (addLabel c v)
       = (if fst (addLabel c v) = None then c\<lparr>label := label c @ [trim (str_of v)]\<rparr> else c)"
  by (simp add: setImage_def setContainerName_def setExec_def addPublishPort_def addEnvironment_def
      addVolume_def addLabel_def Let_def split: option.split)


theorem mutator_atomicity_witness:
  "addPublishPort newContainer (JStr '' 8080:80 '')
     = (None, newContainer\<lparr>publishPort := [''8080:80'']\<rparr>)
   \<and> setContainerName newContainer (JStr '' 8080:80 '') = (Some NameBadFormat, newContainer)
   \<and> setExec newContainer (JStr '' 8080:80 '') = (None, newContainer\<lparr>exec := JStr '' 8080:80 ''\<rparr>)"
proof -
  have "fst (addPublishPort newContainer (JStr '' 8080:80 '')) = None"
    by (simp add: addPublishPort_def notNonEmptyString_def trim_def isWhiteSpace_def Let_def
        portPattern_def hostContainerPattern_def digits_def isDigit_def stripProtocol_def
        parseInt_def decimal_def)
  moreover have "fst (setContainerName newContainer (JStr '' 8080:80 '')) = Some NameBadFormat"
    by (simp add: setContainerName_def notNonEmptyString_def trim_def isWhiteSpace_def Let_def
        isAlnum_def isAlpha_def isDigit_def isNameChar_def)
  moreover have "fst (setExec newContainer (JStr '' 8080:80 '')) = None"
    by (simp add: setExec_def)
  moreover have "publishPort newContainer = []"
    by (simp add: newContainer_def)
  ultimately show ?thesis
    using mutator_atomicity [of newContainer "JStr '' 8080:80 ''"]
    by (simp add: prod_eq_iff trim_def isWhiteSpace_def)
qed

section \<open>Parsing the lines back\<close>

lemma validEntries_perform: "validEntries c \<Longrightarrow> validEntries (snd (perform c x))"
  by (cases x)
     (simp_all add: validEntries_def setImage_def setContainerName_def setExec_def addPublishPort_def
        addEnvironment_def addVolume_def addLabel_def Let_def split: option.splits)

lemma validEntries_foldl:
  "validEntries c \<Longrightarrow> validEntries (foldl (\<lambda>c x. snd (perform c x)) c cs)"
  by (induction cs arbitrary: c) (simp_all add: validEntries_perform)

lemma validEntries_build: "validEntries (build cs)"
  unfolding build_def by (rule validEntries_foldl) (simp add: validEntries_def newContainer_def)

lemma length_split: "length (split c s) = Suc (length (filter (\<lambda>x. x = c) s))"
  by (induction s) (auto split: list.splits)

lemma split_length2: "(length (split c s) < 2) = (c \<notin> set s)"
  by (auto simp: length_split filter_empty_conv less_Suc_eq_le)

lemma Volume_parse_Inl: "(Volume_parse v = Inl (InvalidVolumeFormat v)) = (CHR '':'' \<notin> set v)"
  by (simp add: Volume_parse_def Let_def split_length2)

lemma escape_eq_mem: "(CHR ''='' \<in> set (concat (map escapeChar e))) = (CHR ''='' \<in> set e)"
  by (induction e) (auto simp: escapeChar_def)

lemma length_escape: "length e \<le> length (concat (map escapeChar e))"
  by (induction e) (auto simp: escapeChar_def)

lemma escapeValue_eq_sign: "(CHR ''='' \<in> set (escapeValue e)) = (CHR ''='' \<in> set e)"
proof (cases "CHR '' '' \<in> set e")
  case True
  then have "escapeValue e = [CHR 0x22] @ concat (map escapeChar e) @ [CHR 0x22]"
    by (simp add: escapeValue_def replaceAll_escape)
  then have "(CHR ''='' \<in> set (escapeValue e)) = (CHR ''='' \<in> set (concat (map escapeChar e)))"
    by (simp del: set_concat)
  then show ?thesis by (simp only: escape_eq_mem)
next
  case False
  then show ?thesis by (simp add: escapeValue_def)
qed

lemma escapeValue_changes: "CHR '' '' \<in> set e \<Longrightarrow> escapeValue e \<noteq> e"
proof
  assume sp: "CHR '' '' \<in> set e" and eq: "escapeValue e = e"
  from sp have "length (escapeValue e) = length (concat (map escapeChar e)) + 2"
    by (simp add: escapeValue_def replaceAll_escape)
  with length_escape [of e] eq show False by simp
qed

lemma Environment_parse_inj:
  assumes "(CHR ''='' \<in> set a) = (CHR ''='' \<in> set b)"
    and "Environment_parse a = Environment_parse b"
  shows "a = b"
proof (cases "CHR ''='' \<in> set a")
  case False
  with assms show ?thesis by (simp add: Environment_parse_def indexOf_def)
next
  case True
  let ?P = "\<lambda>x. x \<noteq> CHR ''=''"
  from True assms(1) have b: "CHR ''='' \<in> set b" by simp
  have k: "take (length (takeWhile ?P a)) a = take (length (takeWhile ?P b)) b"
    and v: "drop (length (takeWhile ?P a) + 1) a = drop (length (takeWhile ?P b) + 1) b"
    using assms(2) True b by (simp_all add: Environment_parse_def indexOf_def)
  have ta: "take (length (takeWhile ?P a)) a = takeWhile ?P a"
    and tb: "take (length (takeWhile ?P b)) b = takeWhile ?P b"
    by (simp_all add: takeWhile_eq_take [symmetric])
  have da: "a = takeWhile ?P a @ CHR ''='' # drop (length (takeWhile ?P a) + 1) a"
  proof -
    have "dropWhile ?P a \<noteq> []" using True by (simp add: dropWhile_eq_Nil_conv)
    moreover have "hd (dropWhile ?P a) = CHR ''=''"
      using hd_dropWhile [of ?P a] calculation by auto
    ultimately have "dropWhile ?P a = CHR ''='' # tl (dropWhile ?P a)" by (cases "dropWhile ?P a") auto
    moreover have "tl (dropWhile ?P a) = drop (length (takeWhile ?P a) + 1) a"
      by (simp add: dropWhile_eq_drop drop_Suc tl_drop)
    ultimately show ?thesis by (metis takeWhile_dropWhile_id)
  qed
  have db: "b = takeWhile ?P b @ CHR ''='' # drop (length (takeWhile ?P b) + 1) b"
  proof -
    have "dropWhile ?P b \<noteq> []" using b by (simp add: dropWhile_eq_Nil_conv)
    moreover have "hd (dropWhile ?P b) = CHR ''=''"
      using hd_dropWhile [of ?P b] calculation by auto
    ultimately have "dropWhile ?P b = CHR ''='' # tl (dropWhile ?P b)" by (cases "dropWhile ?P b") auto
    moreover have "tl (dropWhile ?P b) = drop (length (takeWhile ?P b) + 1) b"
      by (simp add: dropWhile_eq_drop drop_Suc tl_drop)
    ultimately show ?thesis by (metis takeWhile_dropWhile_id)
  qed
  from k ta tb have kk: "takeWhile ?P a = takeWhile ?P b" by simp
  note v' = v [unfolded kk]
  have "a = takeWhile ?P b @ CHR ''='' # drop (length (takeWhile ?P b) + 1) b"
    using da unfolding kk v' .
  with db show ?thesis by simp
qed

lemma Environment_round_trip:
  "(Environment_parse (escapeValue e) = Environment_parse e) = (CHR '' '' \<notin> set e)"
proof
  assume "Environment_parse (escapeValue e) = Environment_parse e"
  then have "escapeValue e = e"
    using Environment_parse_inj [of "escapeValue e" e] escapeValue_eq_sign by blast
  then show "CHR '' '' \<notin> set e" using escapeValue_changes by blast
next
  assume "CHR '' '' \<notin> set e"
  then show "Environment_parse (escapeValue e) = Environment_parse e"
    by (simp add: escapeValue_def)
qed


lemma split_join:
  "xs \<noteq> [] \<Longrightarrow> list_all (\<lambda>x. c \<notin> set x) xs \<Longrightarrow> split c (join [c] xs) = xs"
proof (induction xs)
  case Nil
  then show ?case by simp
next
  case (Cons x xs)
  show ?case
  proof (cases xs)
    case Nil
    with Cons.prems show ?thesis by (simp add: split_no_sep)
  next
    case (Cons y ys)
    with Cons.prems Cons.IH have ih: "split c (join [c] xs) = xs" by simp
    have "join [c] (x # xs) = x @ c # join [c] xs" using Cons by simp
    then have "split c (join [c] (x # xs)) = x # split c (join [c] xs)"
      using Cons.prems by (simp add: split_sep)
    with ih show ?thesis by simp
  qed
qed

lemma not_in_join:
  "list_all (\<lambda>x. c \<notin> set x) xs \<Longrightarrow> c \<notin> set sep \<Longrightarrow> c \<notin> set (join sep xs)"
  by (induction sep xs rule: join.induct) auto

lemma PortMapping_parse_forms:
  assumes "digits d" and "digits k" and "p = ''tcp'' \<or> p = ''udp'' \<or> p = ''sctp''"
  shows "PortMapping_parse (d @ '':'' @ k @ ''/'' @ p) = \<lparr>hostPort = d, containerPort = k, protocol = p\<rparr>"
    and "PortMapping_parse (d @ '':'' @ k) = \<lparr>hostPort = d, containerPort = k, protocol = ''tcp''\<rparr>"
    and "PortMapping_parse (k @ ''/'' @ p) = \<lparr>hostPort = k, containerPort = k, protocol = p\<rparr>"
    and "PortMapping_parse k = \<lparr>hostPort = k, containerPort = k, protocol = ''tcp''\<rparr>"
proof -
  note dc = digits_chars(1,2) [OF assms(1)] and kc = digits_chars(1,2) [OF assms(2)]
  have ps: "CHR ''/'' \<notin> set p" "CHR '':'' \<notin> set p" using assms(3) by auto
  have dk: "split CHR '':'' (d @ CHR '':'' # k) = [d, k]"
    using dc(1) kc(1) by (simp add: split_sep split_no_sep)
  have a: "split CHR ''/'' ((d @ CHR '':'' # k) @ CHR ''/'' # p) = [d @ CHR '':'' # k, p]"
    using dc(2) kc(2) ps(1) by (subst split_sep) (simp_all add: split_no_sep)
  have b: "split CHR ''/'' (k @ CHR ''/'' # p) = [k, p]"
    using kc(2) ps(1) by (simp add: split_sep split_no_sep)
  show "PortMapping_parse (d @ '':'' @ k @ ''/'' @ p)
          = \<lparr>hostPort = d, containerPort = k, protocol = p\<rparr>"
    using a dk by (simp add: PortMapping_parse_def Let_def)
  show "PortMapping_parse (d @ '':'' @ k) = \<lparr>hostPort = d, containerPort = k, protocol = ''tcp''\<rparr>"
    using dk dc(2) kc(2) by (simp add: PortMapping_parse_def Let_def)
  show "PortMapping_parse (k @ ''/'' @ p) = \<lparr>hostPort = k, containerPort = k, protocol = p\<rparr>"
    using b kc(1) by (simp add: PortMapping_parse_def Let_def)
  show "PortMapping_parse k = \<lparr>hostPort = k, containerPort = k, protocol = ''tcp''\<rparr>"
    using kc by (simp add: PortMapping_parse_def Let_def)
qed

lemma PortMapping_round: "wfPort pm \<Longrightarrow> PortMapping_parse (PortMapping_toString pm) = pm"
proof -
  assume wf: "wfPort pm"
  then have d: "digits (hostPort pm)" and k: "digits (containerPort pm)"
    and p: "protocol pm = ''tcp'' \<or> protocol pm = ''udp'' \<or> protocol pm = ''sctp''"
    by (simp_all add: wfPort_def)
  note f = PortMapping_parse_forms [OF d k p] PortMapping_parse_forms(3,4) [OF d d p]
  show ?thesis
    using f by (cases pm) (auto simp: PortMapping_toString_def)
qed

lemma Volume_round: "wfVolume v \<Longrightarrow> Volume_parse (Volume_toString v) = Inr v"
proof -
  assume wf: "wfVolume v"
  then have s: "CHR '':'' \<notin> set (source v)" and d: "CHR '':'' \<notin> set (destination v)"
    and o1: "list_all (\<lambda>x. CHR '':'' \<notin> set x) (options v)"
    and o2: "list_all (\<lambda>x. CHR '','' \<notin> set x) (options v)"
    by (simp_all add: wfVolume_def list_all_iff)
  show ?thesis
  proof (cases "options v = []")
    case True
    have "split CHR '':'' (source v @ CHR '':'' # destination v) = [source v, destination v]"
      using s d by (simp add: split_sep split_no_sep)
    then show ?thesis using True by (simp add: Volume_parse_def Volume_toString_def Let_def)
  next
    case False
    have j: "CHR '':'' \<notin> set (join '','' (options v))"
      using o1 by (rule not_in_join) simp
    have "split CHR '':'' (source v @ CHR '':'' # destination v @ CHR '':'' # join '','' (options v))
            = [source v, destination v, join '','' (options v)]"
      using s d j by (simp add: split_sep split_no_sep)
    moreover have "split CHR '','' (join '','' (options v)) = options v"
      using False o2 by (rule split_join)
    ultimately show ?thesis
      using False by (simp add: Volume_parse_def Volume_toString_def Let_def)
  qed
qed

lemma takeWhile_key:
  "CHR ''='' \<notin> set k \<Longrightarrow> takeWhile (\<lambda>x. x \<noteq> CHR ''='') (k @ CHR ''='' # v) = k"
  by (induction k) auto

lemma Environment_round:
  "wfEnvironment e \<Longrightarrow> Environment_parse (Environment_toString e) = e"
  by (simp add: wfEnvironment_def Environment_parse_def Environment_toString_def indexOf_def
      takeWhile_key)

lemma Environment_accepted:
  assumes "CHR ''='' \<in> set s"
  shows "wfEnvironment (Environment_parse s)" and "Environment_toString (Environment_parse s) = s"
proof -
  let ?P = "\<lambda>x. x \<noteq> CHR ''=''"
  have k: "take (length (takeWhile ?P s)) s = takeWhile ?P s"
    by (simp add: takeWhile_eq_take [symmetric])
  show "wfEnvironment (Environment_parse s)"
    using assms by (auto simp: wfEnvironment_def Environment_parse_def indexOf_def k
        dest: set_takeWhileD)
  have "dropWhile ?P s \<noteq> []" using assms by (simp add: dropWhile_eq_Nil_conv)
  moreover have "hd (dropWhile ?P s) = CHR ''=''"
    using hd_dropWhile [of ?P s] calculation by auto
  ultimately have "dropWhile ?P s = CHR ''='' # tl (dropWhile ?P s)"
    by (cases "dropWhile ?P s") auto
  moreover have "tl (dropWhile ?P s) = drop (length (takeWhile ?P s) + 1) s"
    by (simp add: dropWhile_eq_drop drop_Suc tl_drop)
  ultimately have "s = takeWhile ?P s @ CHR ''='' # drop (length (takeWhile ?P s) + 1) s"
    by (metis takeWhile_dropWhile_id)
  then show "Environment_toString (Environment_parse s) = s"
    using assms by (simp add: Environment_toString_def Environment_parse_def indexOf_def k)
qed

lemma Environment_spaces:
  assumes "wfEnvironment e"
  shows "(Environment_parse (escapeValue (Environment_toString e)) = e)
           = (CHR '' '' \<notin> set (Environment_toString e))"
  using Environment_round_trip [of "Environment_toString e"] Environment_round [OF assms] by simp

lemma lines_ports_volumes:
  assumes "singleLined c"
  shows "map (lineValue ''PublishPort'') (linesKeyed ''PublishPort'' (generateContainerSection c))
           = publishPort c"
    and "map (lineValue ''Volume'') (linesKeyed ''Volume'' (generateContainerSection c)) = volume c"
    and "map (lineValue ''Environment'') (linesKeyed ''Environment'' (generateContainerSection c))
           = map escapeValue (environment c)"
proof -
  have "emitted ''PublishPort'' c = eachLine ''PublishPort'' (publishPort c)"
    "emitted ''Volume'' c = eachLine ''Volume'' (volume c)"
    by (simp_all add: emitted_unfold filter_pieces)
  then show "map (lineValue ''PublishPort'') (linesKeyed ''PublishPort'' (generateContainerSection c))
           = publishPort c"
    and "map (lineValue ''Volume'') (linesKeyed ''Volume'' (generateContainerSection c)) = volume c"
    and "map (lineValue ''Environment'') (linesKeyed ''Environment'' (generateContainerSection c))
           = map escapeValue (environment c)"
    using assms
    by (simp_all add: linesKeyed_section emitted_escaped eachLine_def escapedLine_def comp_def
        butlast_line lineValue_def)
qed

lemma build_example:
  "build [SetImage (JStr ''nginx''), AddPublishPort (JStr ''8080:80''), AddPublishPort (JStr ''53/udp''),
          AddEnvironment (JStr ''A=b''), AddVolume (JStr ''/srv:/data:ro,z'')]
     = newContainer\<lparr>image_field := ''nginx'', publishPort := [''8080:80'', ''53/udp''],
         environment := [''A=b''], volume := [''/srv:/data:ro,z'']\<rparr>"
  by (simp add: mutators addPublishPort_def portPattern_def hostContainerPattern_def digits_def
      isDigit_def protocolSuffix_def stripProtocol_def parseInt_def decimal_def newContainer_def)

lemma build_counterexample:
  "build [SetImage (JStr ''nginx''), AddVolume (JStr ''/data''),
          AddEnvironment (JStr ''MSG=hello world''), AddEnvironment (JStr (''A=b'' @ nl @ ''c''))]
     = newContainer\<lparr>image_field := ''nginx'', volume := [''/data''],
         environment := [''MSG=hello world'', ''A=b'' @ nl @ ''c'']\<rparr>"
  by (simp add: mutators newContainer_def)

text \<open>
  C1, amended. For a container none of whose written values holds a line break, the
  \<open>PublishPort=\<close> and \<open>Volume=\<close> lines of the text carry the entries as they are, and the
  \<open>Environment=\<close> lines the escaped entries, one line per entry in the order of the list.
  If the \<open>publishPort\<close> entries are the \<open>toString()\<close> of port mappings with decimal ports
  and a protocol \<open>tcp\<close>, \<open>udp\<close> or \<open>sctp\<close>, \<open>PortMapping.parse\<close> of the lines gives these
  port mappings back; if the \<open>volume\<close> entries are the \<open>toString()\<close> of volumes whose source
  and destination hold no colon and whose options hold neither colon nor comma,
  \<open>Volume.parse\<close> of the lines gives these volumes back; if the \<open>environment\<close> entries are the
  \<open>toString()\<close> of variables whose key holds no equals sign, \<open>Environment.parse\<close> of the
  lines gives these variables back exactly when no entry holds a space. On the strings that
  \<open>addPublishPort\<close> accepts, \<open>PortMapping.parse\<close> gives the host port, the container port
  (both the one port of an entry without a colon) and the protocol, \<open>tcp\<close> where the entry
  has none. Every string with an equals sign is the \<open>toString()\<close> of the variable
  \<open>Environment.parse\<close> reads from it. The last conjunct says what the mutators let
  in: ports that match the pattern, environment entries with an equals sign, volumes
  with a colon or a leading slash.
\<close>

theorem round_trip:
  "(singleLined c \<longrightarrow>
      map (lineValue ''PublishPort'') (linesKeyed ''PublishPort'' (generateContainerSection c))
        = publishPort c
      \<and> map (lineValue ''Volume'') (linesKeyed ''Volume'' (generateContainerSection c)) = volume c
      \<and> map (lineValue ''Environment'') (linesKeyed ''Environment'' (generateContainerSection c))
        = map escapeValue (environment c))
   \<and> (singleLined c \<and> list_all wfPort pms \<and> publishPort c = map PortMapping_toString pms \<longrightarrow>
        map (PortMapping_parse \<circ> lineValue ''PublishPort'')
            (linesKeyed ''PublishPort'' (generateContainerSection c)) = pms)
   \<and> (singleLined c \<and> list_all wfVolume vs \<and> volume c = map Volume_toString vs \<longrightarrow>
        map (Volume_parse \<circ> lineValue ''Volume'')
            (linesKeyed ''Volume'' (generateContainerSection c)) = map Inr vs)
   \<and> (singleLined c \<and> list_all wfEnvironment es \<and> environment c = map Environment_toString es \<longrightarrow>
        (map (Environment_parse \<circ> lineValue ''Environment'')
             (linesKeyed ''Environment'' (generateContainerSection c)) = es)
          = list_all (\<lambda>e. CHR '' '' \<notin> set e) (environment c))
   \<and> (digits d \<and> digits k \<and> (p = ''tcp'' \<or> p = ''udp'' \<or> p = ''sctp'') \<longrightarrow>
        PortMapping_parse (d @ '':'' @ k @ ''/'' @ p) = \<lparr>hostPort = d, containerPort = k, protocol = p\<rparr>
        \<and> PortMapping_parse (d @ '':'' @ k) = \<lparr>hostPort = d, containerPort = k, protocol = ''tcp''\<rparr>
        \<and> PortMapping_parse (k @ ''/'' @ p) = \<lparr>hostPort = k, containerPort = k, protocol = p\<rparr>
        \<and> PortMapping_parse k = \<lparr>hostPort = k, containerPort = k, protocol = ''tcp''\<rparr>)
   \<and> (CHR ''='' \<in> set s \<longrightarrow>
        wfEnvironment (Environment_parse s) \<and> Environment_toString (Environment_parse s) = s)
   \<and> validEntries (build cs)"
proof -
  have ports: "map (PortMapping_parse \<circ> lineValue ''PublishPort'')
            (linesKeyed ''PublishPort'' (generateContainerSection c)) = pms"
    if "singleLined c" "list_all wfPort pms" "publishPort c = map PortMapping_toString pms"
  proof -
    have "map PortMapping_parse (map PortMapping_toString pms) = pms"
      using that(2) by (induction pms) (simp_all add: PortMapping_round)
    then show ?thesis
      using lines_ports_volumes(1) [OF that(1)] that(3) by (simp flip: map_map)
  qed
  have volumes: "map (Volume_parse \<circ> lineValue ''Volume'')
            (linesKeyed ''Volume'' (generateContainerSection c)) = map Inr vs"
    if "singleLined c" "list_all wfVolume vs" "volume c = map Volume_toString vs"
  proof -
    have "map Volume_parse (map Volume_toString vs) = map Inr vs"
      using that(2) by (induction vs) (simp_all add: Volume_round)
    then show ?thesis
      using lines_ports_volumes(2) [OF that(1)] that(3) by (simp flip: map_map)
  qed
  have envs: "(map (Environment_parse \<circ> lineValue ''Environment'')
             (linesKeyed ''Environment'' (generateContainerSection c)) = es)
          = list_all (\<lambda>e. CHR '' '' \<notin> set e) (environment c)"
    if "singleLined c" "list_all wfEnvironment es" "environment c = map Environment_toString es"
  proof -
    have "map (Environment_parse \<circ> lineValue ''Environment'')
             (linesKeyed ''Environment'' (generateContainerSection c))
            = map Environment_parse (map (lineValue ''Environment'')
                (linesKeyed ''Environment'' (generateContainerSection c)))"
      by simp
    also have "\<dots> = map Environment_parse (map escapeValue (map Environment_toString es))"
      unfolding lines_ports_volumes(3) [OF that(1)] that(3) ..
    also have "\<dots> = map (\<lambda>e. Environment_parse (escapeValue (Environment_toString e))) es"
      by (simp add: comp_def)
    finally have "map (Environment_parse \<circ> lineValue ''Environment'')
             (linesKeyed ''Environment'' (generateContainerSection c))
            = map (\<lambda>e. Environment_parse (escapeValue (Environment_toString e))) es" .
    moreover have "(map (\<lambda>e. Environment_parse (escapeValue (Environment_toString e))) es = es)
            = list_all (\<lambda>e. CHR '' '' \<notin> set (Environment_toString e)) es"
      using that(2) by (induction es) (auto simp: Environment_spaces)
    ultimately show ?thesis
      using that(3) by (simp add: list_all_iff)
  qed
  have c1: "singleLined c \<longrightarrow>
      map (lineValue ''PublishPort'') (linesKeyed ''PublishPort'' (generateContainerSection c))
        = publishPort c
      \<and> map (lineValue ''Volume'') (linesKeyed ''Volume'' (generateContainerSection c)) = volume c
      \<and> map (lineValue ''Environment'') (linesKeyed ''Environment'' (generateContainerSection c))
        = map escapeValue (environment c)"
    using lines_ports_volumes [of c] by simp
  have c2: "singleLined c \<and> list_all wfPort pms \<and> publishPort c = map PortMapping_toString pms \<longrightarrow>
        map (PortMapping_parse \<circ> lineValue ''PublishPort'')
            (linesKeyed ''PublishPort'' (generateContainerSection c)) = pms"
    using ports by blast
  have c3: "singleLined c \<and> list_all wfVolume vs \<and> volume c = map Volume_toString vs \<longrightarrow>
        map (Volume_parse \<circ> lineValue ''Volume'')
            (linesKeyed ''Volume'' (generateContainerSection c)) = map Inr vs"
    using volumes by blast
  have c4: "singleLined c \<and> list_all wfEnvironment es \<and> environment c = map Environment_toString es \<longrightarrow>
        (map (Environment_parse \<circ> lineValue ''Environment'')
             (linesKeyed ''Environment'' (generateContainerSection c)) = es)
          = list_all (\<lambda>e. CHR '' '' \<notin> set e) (environment c)"
    using envs by blast
  have c5: "digits d \<and> digits k \<and> (p = ''tcp'' \<or> p = ''udp'' \<or> p = ''sctp'') \<longrightarrow>
        PortMapping_parse (d @ '':'' @ k @ ''/'' @ p) = \<lparr>hostPort = d, containerPort = k, protocol = p\<rparr>
        \<and> PortMapping_parse (d @ '':'' @ k) = \<lparr>hostPort = d, containerPort = k, protocol = ''tcp''\<rparr>
        \<and> PortMapping_parse (k @ ''/'' @ p) = \<lparr>hostPort = k, containerPort = k, protocol = p\<rparr>
        \<and> PortMapping_parse k = \<lparr>hostPort = k, containerPort = k, protocol = ''tcp''\<rparr>"
    using PortMapping_parse_forms [of d k p] by (intro impI) (elim conjE, intro conjI)
  have c6: "CHR ''='' \<in> set s \<longrightarrow>
        wfEnvironment (Environment_parse s) \<and> Environment_toString (Environment_parse s) = s"
    using Environment_accepted [of s] by (intro impI conjI)
  from c1 c2 c3 c4 c5 c6 validEntries_build [of cs] show ?thesis
    by (intro conjI)
qed

theorem round_trip_witness:
  "singleLined
     (build [SetImage (JStr ''nginx''), AddPublishPort (JStr ''8080:80''),
             AddPublishPort (JStr ''53/udp''), AddEnvironment (JStr ''A=b''),
             AddVolume (JStr ''/srv:/data:ro,z'')])
   \<and> list_all wfPort [\<lparr>hostPort = ''8080'', containerPort = ''80'', protocol = ''tcp''\<rparr>,
                       \<lparr>hostPort = ''53'', containerPort = ''53'', protocol = ''udp''\<rparr>]
   \<and> publishPort
         (build [SetImage (JStr ''nginx''), AddPublishPort (JStr ''8080:80''),
                 AddPublishPort (JStr ''53/udp''), AddEnvironment (JStr ''A=b''),
                 AddVolume (JStr ''/srv:/data:ro,z'')])
       = map PortMapping_toString
           [\<lparr>hostPort = ''8080'', containerPort = ''80'', protocol = ''tcp''\<rparr>,
            \<lparr>hostPort = ''53'', containerPort = ''53'', protocol = ''udp''\<rparr>]
   \<and> map (PortMapping_parse \<circ> lineValue ''PublishPort'')
         (linesKeyed ''PublishPort''
            (generateContainerSection
               (build [SetImage (JStr ''nginx''), AddPublishPort (JStr ''8080:80''),
                       AddPublishPort (JStr ''53/udp''), AddEnvironment (JStr ''A=b''),
                       AddVolume (JStr ''/srv:/data:ro,z'')])))
       = [\<lparr>hostPort = ''8080'', containerPort = ''80'', protocol = ''tcp''\<rparr>,
          \<lparr>hostPort = ''53'', containerPort = ''53'', protocol = ''udp''\<rparr>]
   \<and> wfVolume \<lparr>source = ''/srv'', destination = ''/data'', options = [''ro'', ''z'']\<rparr>
   \<and> volume
         (build [SetImage (JStr ''nginx''), AddPublishPort (JStr ''8080:80''),
                 AddPublishPort (JStr ''53/udp''), AddEnvironment (JStr ''A=b''),
                 AddVolume (JStr ''/srv:/data:ro,z'')])
       = map Volume_toString [\<lparr>source = ''/srv'', destination = ''/data'', options = [''ro'', ''z'']\<rparr>]
   \<and> map (Volume_parse \<circ> lineValue ''Volume'')
         (linesKeyed ''Volume''
            (generateContainerSection
               (build [SetImage (JStr ''nginx''), AddPublishPort (JStr ''8080:80''),
                       AddPublishPort (JStr ''53/udp''), AddEnvironment (JStr ''A=b''),
                       AddVolume (JStr ''/srv:/data:ro,z'')])))
       = [Inr \<lparr>source = ''/srv'', destination = ''/data'', options = [''ro'', ''z'']\<rparr>]
   \<and> wfEnvironment \<lparr>key_field = ''A'', value_field = ''b''\<rparr>
   \<and> environment
         (build [SetImage (JStr ''nginx''), AddPublishPort (JStr ''8080:80''),
                 AddPublishPort (JStr ''53/udp''), AddEnvironment (JStr ''A=b''),
                 AddVolume (JStr ''/srv:/data:ro,z'')])
       = map Environment_toString [\<lparr>key_field = ''A'', value_field = ''b''\<rparr>]
   \<and> map (Environment_parse \<circ> lineValue ''Environment'')
         (linesKeyed ''Environment''
            (generateContainerSection
               (build [SetImage (JStr ''nginx''), AddPublishPort (JStr ''8080:80''),
                       AddPublishPort (JStr ''53/udp''), AddEnvironment (JStr ''A=b''),
                       AddVolume (JStr ''/srv:/data:ro,z'')])))
       = [\<lparr>key_field = ''A'', value_field = ''b''\<rparr>]
   \<and> digits ''8080'' \<and> digits ''80''
   \<and> PortMapping_parse ''8080:80/tcp'' = \<lparr>hostPort = ''8080'', containerPort = ''80'', protocol = ''tcp''\<rparr>
   \<and> PortMapping_parse ''8080:80'' = \<lparr>hostPort = ''8080'', containerPort = ''80'', protocol = ''tcp''\<rparr>
   \<and> CHR ''='' \<in> set ''A=b'' \<and> Environment_toString (Environment_parse ''A=b'') = ''A=b''
   \<and> list_all (\<lambda>e. CHR '' '' \<notin> set e)
         (environment
            (build [SetImage (JStr ''nginx''), AddPublishPort (JStr ''8080:80''),
                    AddPublishPort (JStr ''53/udp''), AddEnvironment (JStr ''A=b''),
                    AddVolume (JStr ''/srv:/data:ro,z'')]))"
  using round_trip
    [of "build [SetImage (JStr ''nginx''), AddPublishPort (JStr ''8080:80''),
                AddPublishPort (JStr ''53/udp''), AddEnvironment (JStr ''A=b''),
                AddVolume (JStr ''/srv:/data:ro,z'')]"
        "[\<lparr>hostPort = ''8080'', containerPort = ''80'', protocol = ''tcp''\<rparr>,
          \<lparr>hostPort = ''53'', containerPort = ''53'', protocol = ''udp''\<rparr>]"
        "[\<lparr>source = ''/srv'', destination = ''/data'', options = [''ro'', ''z'']\<rparr>]"
        "[\<lparr>key_field = ''A'', value_field = ''b''\<rparr>]"
        "''8080''" "''80''" "''tcp''" "''A=b''" "[]"]
  unfolding build_example
  by (simp add: singleLined_unfold newContainer_def wfPort_def wfVolume_def wfEnvironment_def
      digits_def isDigit_def PortMapping_toString_def Volume_toString_def Environment_toString_def)

text \<open>
  The claim as first stated fails on a container built by \<open>addVolume('/data')\<close>,
  \<open>addEnvironment('MSG=hello world')\<close> and \<open>addEnvironment\<close> of an entry with a line break:
  \<open>Volume.parse\<close> rejects the volume line, the first environment line parses to a key and
  a value that carry the quotes, and the second holds the entry only up to the line
  break.
\<close>

theorem round_trip_counterexample:
  "textLines (generateContainerSection
       (build [SetImage (JStr ''nginx''), AddVolume (JStr ''/data''),
               AddEnvironment (JStr ''MSG=hello world''), AddEnvironment (JStr (''A=b'' @ nl @ ''c''))]))
     = [''[Container]'', ''Image=nginx'', ''Volume=/data'',
        ''Environment='' @ [CHR 0x22] @ ''MSG=hello world'' @ [CHR 0x22], ''Environment=A=b'', ''c'']
   \<and> map (Volume_parse \<circ> lineValue ''Volume'')
         (linesKeyed ''Volume'' (generateContainerSection
            (build [SetImage (JStr ''nginx''), AddVolume (JStr ''/data''),
                    AddEnvironment (JStr ''MSG=hello world''),
                    AddEnvironment (JStr (''A=b'' @ nl @ ''c''))])))
     = [Inl (InvalidVolumeFormat ''/data'')]
   \<and> map (Environment_parse \<circ> lineValue ''Environment'')
         (linesKeyed ''Environment'' (generateContainerSection
            (build [SetImage (JStr ''nginx''), AddVolume (JStr ''/data''),
                    AddEnvironment (JStr ''MSG=hello world''),
                    AddEnvironment (JStr (''A=b'' @ nl @ ''c''))])))
     = [\<lparr>key_field = CHR 0x22 # ''MSG'', value_field = ''hello world'' @ [CHR 0x22]\<rparr>,
        \<lparr>key_field = ''A'', value_field = ''b''\<rparr>]
   \<and> map Environment_parse
         (environment
            (build [SetImage (JStr ''nginx''), AddVolume (JStr ''/data''),
                    AddEnvironment (JStr ''MSG=hello world''),
                    AddEnvironment (JStr (''A=b'' @ nl @ ''c''))]))
     = [\<lparr>key_field = ''MSG'', value_field = ''hello world''\<rparr>,
        \<lparr>key_field = ''A'', value_field = ''b'' @ nl @ ''c''\<rparr>]"
proof -
  have t: "textLines (generateContainerSection
       (newContainer\<lparr>image_field := ''nginx'', volume := [''/data''],
          environment := [''MSG=hello world'', ''A=b'' @ nl @ ''c'']\<rparr>))
     = [''[Container]'', ''Image=nginx'', ''Volume=/data'',
        ''Environment='' @ [CHR 0x22] @ ''MSG=hello world'' @ [CHR 0x22], ''Environment=A=b'', ''c'']"
    by (simp add: generateContainerSection_def containerChunks_def emitters newContainer_def
        escapeValue_def replaceAll_def)
  show ?thesis
    unfolding build_counterexample linesKeyed_def t
    by (simp add: lineValue_def Volume_parse_def Environment_parse_def indexOf_def)
qed

section \<open>Cloning\<close>

text \<open>
  Both functions in closed form: the references handed out are the next 25, and for
  \<open>clone\<close> the next 50, of the store. The arrays a spread reads are those of the
  original, whose references are older than every array made on the way.
\<close>

lemma construct_Store:
  "construct (Store f n) =
     (\<lparr> image_field = [], containerName = JNull, exec = JNull, addCapability = n,
        dropCapability = n + 1, addDevice = n + 2, mount = n + 3, volume = n + 4,
        network = n + 5, networkAlias = n + 6, publishPort = n + 7, exposeHostPort = n + 8,
        ip = JNull, ip6 = JNull, dns = n + 9, dnsOption = n + 10, dnsSearch = n + 11,
        environment = n + 12, environmentFile = n + 13, environmentHost = JBool False,
        noNewPrivileges = JBool False, securityLabelDisable = JBool False,
        securityLabelFileType = JNull, securityLabelLevel = JNull,
        securityLabelNested = JBool False, securityLabelType = JNull, seccompProfile = JNull,
        mask_field = n + 14, unmask = JNull, user = JNull, group_field = JNull,
        groupAdd = n + 15, userNS = JNull, uidMap = n + 16, gidMap = n + 17,
        subUidMap = JNull, subGidMap = JNull, readOnly = JBool False,
        readOnlyTmpfs = JBool True, runInit = JBool False, workingDir = JNull,
        hostName = JNull, timezone = JNull, shmSize = JNull, tmpfs = n + 18,
        healthCmd = JNull, healthInterval = JNull, healthOnFailure = JNull,
        healthRetries = JNull, healthStartPeriod = JNull, healthStartupCmd = JNull,
        healthStartupInterval = JNull, healthStartupRetries = JNull,
        healthStartupSuccess = JNull, healthStartupTimeout = JNull, healthTimeout = JNull,
        notify = ''conmon'', stopSignal = JNull, stopTimeout = JNull, pod = JNull,
        logDriver = JNull, logOpt = n + 19, label = n + 20, annotation = n + 21,
        pidsLimit = JNull, ulimit = n + 22, sysctl = n + 23, autoUpdate = JNull,
        pull = JNull, secret = n + 24, rootfs = JNull, entrypoint = JNull,
        podmanArgs = JNull \<rparr>,
      Store (f(n := [], n + 1 := [], n + 2 := [], n + 3 := [], n + 4 := [], n + 5 := [],
         n + 6 := [], n + 7 := [], n + 8 := [], n + 9 := [], n + 10 := [], n + 11 := [],
         n + 12 := [], n + 13 := [], n + 14 := [], n + 15 := [], n + 16 := [], n + 17 := [],
         n + 18 := [], n + 19 := [], n + 20 := [], n + 21 := [], n + 22 := [], n + 23 := [],
         n + 24 := []))
        (n + 25))"
  by (simp add: construct_def eval_nat_numeral)

lemma clone_Store:
  assumes "listsAllocated (Store f n) c"
  shows "clone (Store f n) c =
     (\<lparr> image_field = image_field c, containerName = containerName c, exec = exec c,
        addCapability = n + 25, dropCapability = n + 26, addDevice = n + 27, mount = n + 28,
        volume = n + 29, network = n + 30, networkAlias = n + 31, publishPort = n + 32,
        exposeHostPort = n + 33, ip = ip c, ip6 = ip6 c, dns = n + 34, dnsOption = n + 35,
        dnsSearch = n + 36, environment = n + 37, environmentFile = n + 38,
        environmentHost = environmentHost c, noNewPrivileges = noNewPrivileges c,
        securityLabelDisable = securityLabelDisable c,
        securityLabelFileType = securityLabelFileType c,
        securityLabelLevel = securityLabelLevel c,
        securityLabelNested = securityLabelNested c, securityLabelType = securityLabelType c,
        seccompProfile = seccompProfile c, mask_field = n + 39, unmask = unmask c,
        user = user c, group_field = group_field c, groupAdd = n + 40, userNS = userNS c,
        uidMap = n + 41, gidMap = n + 42, subUidMap = subUidMap c, subGidMap = subGidMap c,
        readOnly = readOnly c, readOnlyTmpfs = readOnlyTmpfs c, runInit = runInit c,
        workingDir = workingDir c, hostName = hostName c, timezone = timezone c,
        shmSize = shmSize c, tmpfs = n + 43, healthCmd = healthCmd c,
        healthInterval = healthInterval c, healthOnFailure = healthOnFailure c,
        healthRetries = healthRetries c, healthStartPeriod = healthStartPeriod c,
        healthStartupCmd = healthStartupCmd c,
        healthStartupInterval = healthStartupInterval c,
        healthStartupRetries = healthStartupRetries c,
        healthStartupSuccess = healthStartupSuccess c,
        healthStartupTimeout = healthStartupTimeout c, healthTimeout = healthTimeout c,
        notify = notify c, stopSignal = stopSignal c, stopTimeout = stopTimeout c,
        pod = pod c, logDriver = logDriver c, logOpt = n + 45, label = n + 44,
        annotation = n + 46, pidsLimit = pidsLimit c, ulimit = n + 47, sysctl = n + 48,
        autoUpdate = autoUpdate c, pull = pull c, secret = n + 49, rootfs = rootfs c,
        entrypoint = entrypoint c, podmanArgs = podmanArgs c \<rparr>,
      Store (f(n := [], n + 1 := [], n + 2 := [], n + 3 := [], n + 4 := [], n + 5 := [],
         n + 6 := [], n + 7 := [], n + 8 := [], n + 9 := [], n + 10 := [], n + 11 := [],
         n + 12 := [], n + 13 := [], n + 14 := [], n + 15 := [], n + 16 := [], n + 17 := [],
         n + 18 := [], n + 19 := [], n + 20 := [], n + 21 := [], n + 22 := [], n + 23 := [],
         n + 24 := [], n + 25 := f (addCapability c), n + 26 := f (dropCapability c),
         n + 27 := f (addDevice c), n + 28 := f (mount c), n + 29 := f (volume c),
         n + 30 := f (network c), n + 31 := f (networkAlias c), n + 32 := f (publishPort c),
         n + 33 := f (exposeHostPort c), n + 34 := f (dns c), n + 35 := f (dnsOption c),
         n + 36 := f (dnsSearch c), n + 37 := f (environment c),
         n + 38 := f (environmentFile c), n + 39 := f (mask_field c),
         n + 40 := f (groupAdd c), n + 41 := f (uidMap c), n + 42 := f (gidMap c),
         n + 43 := f (tmpfs c), n + 44 := f (label c), n + 45 := f (logOpt c),
         n + 46 := f (annotation c), n + 47 := f (ulimit c), n + 48 := f (sysctl c),
         n + 49 := f (secret c)))
        (n + 50))"
  using assms by (simp add: clone_def construct_Store listsAllocated_def listFields_def eval_nat_numeral)

lemma map_jsval_upd:
  "jsBelow n v \<Longrightarrow> n \<le> k \<Longrightarrow> map_jsval (g(k := x)) v = map_jsval g v"
  by (cases v) auto

lemma clone_view:
  assumes "allocated (Store f n) c"
  shows "view (snd (clone (Store f n) c)) (fst (clone (Store f n) c)) = view (Store f n) c"
proof -
  have la: "listsAllocated (Store f n) c" using assms by (simp add: allocated_def)
  have js: "list_all (\<lambda>fld. jsBelow n (fld c)) scalarFields"
    using assms by (simp add: allocated_def)
  note r = map_jsval_upd [of n]
  show ?thesis
    using js unfolding scalarFields_def
    by (simp add: clone_Store [OF la] view_def r)
qed


lemma clone_original:
  assumes "allocated (Store f n) c"
  shows "view (snd (clone (Store f n) c)) c = view (Store f n) c"
proof -
  have la: "listsAllocated (Store f n) c" using assms by (simp add: allocated_def)
  have js: "list_all (\<lambda>fld. jsBelow n (fld c)) scalarFields"
    using assms by (simp add: allocated_def)
  note r = map_jsval_upd [of n]
  show ?thesis
    using js la unfolding scalarFields_def listsAllocated_def listFields_def
    by (simp add: clone_Store [OF la] view_def r)
qed

lemma clone_fresh:
  assumes "listsAllocated (Store f n) c"
  shows "list_all (\<lambda>fld. n \<le> fld (fst (clone (Store f n) c))) listFields"
  by (simp add: clone_Store [OF assms] listFields_def)

lemma view_push_fresh:
  assumes "allocated (Store f n) c" and "n \<le> a"
  shows "view (push a x st) c = view st c"
proof (cases st)
  case (Store g m)
  have la: "listsAllocated (Store f n) c" using assms by (simp add: allocated_def)
  have js: "list_all (\<lambda>fld. jsBelow n (fld c)) scalarFields"
    using assms by (simp add: allocated_def)
  note r = map_jsval_upd [of n]
  show ?thesis
    using js la assms(2) unfolding scalarFields_def listsAllocated_def listFields_def Store
    by (simp add: view_def r)
qed

text \<open>
  What \<open>clone\<close> does right. For a container object that lives in the store, the clone
  has the value of the original, so the two serialize to the same text; cloning leaves
  the value of the original as it was; and so does a \<open>push\<close> onto any of the 25 list
  fields of the clone, each of which is a new array.
\<close>

lemma clone_same_text:
  assumes "allocated st c"
  shows "generateContainerSection (view (snd (clone st c)) (fst (clone st c)))
           = generateContainerSection (view st c)"
  using assms by (cases st) (simp add: clone_view)

lemma clone_lists_independent:
  assumes "allocated st c"
  shows "view (snd (clone st c)) c = view st c"
    and "list_all (\<lambda>fld. view (push (fld (fst (clone st c))) x (snd (clone st c))) c = view st c)
           listFields"
proof -
  obtain f n where st: "st = Store f n" by (cases st)
  have la: "listsAllocated (Store f n) c" using assms by (simp add: allocated_def st)
  show o: "view (snd (clone st c)) c = view st c"
    using assms by (simp add: st clone_original)
  have "\<And>a. n \<le> a \<Longrightarrow> view (push a x (snd (clone st c))) c = view st c"
    using view_push_fresh [of f n c] assms o by (simp add: st)
  then show "list_all (\<lambda>fld. view (push (fld (fst (clone st c))) x (snd (clone st c))) c = view st c)
           listFields"
    using clone_fresh [OF la] by (simp add: st list_all_iff)
qed

text \<open>What it misses, on the example.\<close>

lemma unmaskExample_closed:
  "allocated (snd unmaskExample) (fst unmaskExample)"
  "view (snd unmaskExample) (fst unmaskExample)
     = newContainer\<lparr>image_field := ''nginx'', unmask := JArr [''/proc/kcore'']\<rparr>"
  by (simp_all add: unmaskExample_def construct_Store allocated_def listsAllocated_def
      listFields_def scalarFields_def view_def newContainer_def)


lemma unmaskPushed_views:
  "unmask (fst unmaskCloned) = unmask (fst unmaskExample)"
  "view (snd unmaskCloned) (fst unmaskExample)
     = newContainer\<lparr>image_field := ''nginx'', unmask := JArr [''/proc/kcore'']\<rparr>"
  "view unmaskPushed (fst unmaskExample)
     = newContainer\<lparr>image_field := ''nginx'', unmask := JArr [''/proc/kcore'', ''/sys'']\<rparr>"
  by (simp_all add: unmaskPushed_def unmaskCloned_def unmaskExample_def construct_Store clone_Store
      listsAllocated_def listFields_def view_def newContainer_def)

lemma unmask_text:
  "generateContainerSection (newContainer\<lparr>image_field := ''nginx'', unmask := JArr xs\<rparr>)
     = ''[Container]'' @ nl @ ''Image=nginx'' @ nl @ ''Unmask='' @ join '':'' xs @ nl"
  by (simp add: generateContainerSection_def containerChunks_def newContainer_def
      sectionHeader_def line_def scalarLine_def eachLine_def escapedLine_def flagLine_def
      joinedLine_def dnsLines_def unmaskLine_def notifyLine_def)

text \<open>
  C3. \<open>clone\<close> copies \<open>unmask\<close> by assignment, with the primitive properties. When
  \<open>unmask\<close> holds an array, the form the generator joins with colons, the clone holds
  the same array: after \<open>d.unmask.push('/sys')\<close> on the clone \<open>d\<close> of \<open>c\<close>, the value of
  \<open>c\<close> has changed and \<open>c\<close> serializes to another text than before. So the clone is not
  independent of the original, as the claim and the comment of \<open>clone\<close> have it.
\<close>

theorem clone_shares_unmask:
  "unmask (fst unmaskCloned) = unmask (fst unmaskExample)
   \<and> view (snd unmaskCloned) (fst unmaskExample)
       = newContainer\<lparr>image_field := ''nginx'', unmask := JArr [''/proc/kcore'']\<rparr>
   \<and> view unmaskPushed (fst unmaskExample)
       = newContainer\<lparr>image_field := ''nginx'', unmask := JArr [''/proc/kcore'', ''/sys'']\<rparr>
   \<and> generateContainerSection (view (snd unmaskCloned) (fst unmaskExample))
       = ''[Container]'' @ nl @ ''Image=nginx'' @ nl @ ''Unmask=/proc/kcore'' @ nl
   \<and> generateContainerSection (view unmaskPushed (fst unmaskExample))
       = ''[Container]'' @ nl @ ''Image=nginx'' @ nl @ ''Unmask=/proc/kcore:/sys'' @ nl"
  unfolding unmaskPushed_views unmask_text by simp

end
